theory Spec2Isabelle
  imports Complex_Main "HOL-Library.Word"
begin

section \<open>Python values used by \<open>youtube_api.py\<close>\<close>

subsection \<open>Exceptions\<close>

text \<open>
  Every exception carries the text that \<open>str(e)\<close> yields; \<open>HttpError\<close> carries in
  addition \<open>e.resp.status\<close>. Exceptions raised by the interpreter itself (\<open>KeyError\<close>,
  \<open>TypeError\<close>, ...) carry the message text of CPython 3; no theorem below depends on
  these texts.
\<close>

datatype pyexc =
    HttpError nat string
  | ValueError string
  | KeyError string
  | TypeError string
  | IndexError string
  | AttributeError string
  | OverflowError string

fun str_exc :: "pyexc \<Rightarrow> string" where
  "str_exc (HttpError status msg) = msg"
| "str_exc (ValueError msg) = msg"
| "str_exc (KeyError msg) = msg"
| "str_exc (TypeError msg) = msg"
| "str_exc (IndexError msg) = msg"
| "str_exc (AttributeError msg) = msg"
| "str_exc (OverflowError msg) = msg"

subsection \<open>Binary64 floating point\<close>

text \<open>
  A Python \<open>float\<close> is an IEEE 754 binary64 number. \<open>Finite m e\<close> stands for the number
  \<open>m * 2 ^ e\<close>; every operation computes the exact dyadic result and rounds it to 53
  significant bits, ties to even, with gradual underflow below \<open>2 ^ -1022\<close> and overflow
  to an infinity from \<open>2 ^ 1024\<close> on. The sign of a zero is not represented: no operation
  of the program observes it.
\<close>

datatype pyfloat = Finite int int | PosInf | NegInf | NaN

text \<open>\<open>bit_length n\<close> is the number of binary digits of \<open>n\<close> (Python's \<open>n.bit_length()\<close>) for \<open>n \<ge> 0\<close>.\<close>

function bit_length :: "int \<Rightarrow> nat" where
  "bit_length n = (if n \<le> 0 then 0 else Suc (bit_length (n div 2)))"
  by pat_completeness auto
termination
  by (relation "measure nat") auto

declare bit_length.simps [simp del]

definition round_half_even :: "int \<Rightarrow> nat \<Rightarrow> int" where
  "round_half_even m s =
     (let q = m div 2 ^ s; r = m mod 2 ^ s in
      if 2 * r < 2 ^ s then q
      else if 2 * r > 2 ^ s then q + 1
      else if even q then q else q + 1)"

definition fround :: "int \<Rightarrow> int \<Rightarrow> pyfloat" where
  "fround m e =
     (let e' = max (e + int (bit_length \<bar>m\<bar>) - 53) (- 1074);
          m' = (if e' \<le> e then m else round_half_even m (nat (e' - e)));
          e'' = (if e' \<le> e then e else e')
      in if int (bit_length \<bar>m'\<bar>) + e'' > 1024
         then (if m' < 0 then NegInf else PosInf)
         else Finite m' e'')"

fun fneg :: "pyfloat \<Rightarrow> pyfloat" where
  "fneg (Finite m e) = Finite (- m) e"
| "fneg PosInf = NegInf"
| "fneg NegInf = PosInf"
| "fneg NaN = NaN"

fun fmul :: "pyfloat \<Rightarrow> pyfloat \<Rightarrow> pyfloat" where
  "fmul (Finite a e) (Finite b f) = fround (a * b) (e + f)"
| "fmul NaN _ = NaN"
| "fmul _ NaN = NaN"
| "fmul (Finite a e) PosInf = (if a = 0 then NaN else if a < 0 then NegInf else PosInf)"
| "fmul (Finite a e) NegInf = (if a = 0 then NaN else if a < 0 then PosInf else NegInf)"
| "fmul PosInf (Finite b f) = (if b = 0 then NaN else if b < 0 then NegInf else PosInf)"
| "fmul NegInf (Finite b f) = (if b = 0 then NaN else if b < 0 then PosInf else NegInf)"
| "fmul PosInf PosInf = PosInf"
| "fmul PosInf NegInf = NegInf"
| "fmul NegInf PosInf = NegInf"
| "fmul NegInf NegInf = PosInf"

fun fadd :: "pyfloat \<Rightarrow> pyfloat \<Rightarrow> pyfloat" where
  "fadd (Finite a e) (Finite b f) =
     (let g = min e f in fround (a * 2 ^ nat (e - g) + b * 2 ^ nat (f - g)) g)"
| "fadd NaN _ = NaN"
| "fadd _ NaN = NaN"
| "fadd PosInf NegInf = NaN"
| "fadd NegInf PosInf = NaN"
| "fadd PosInf _ = PosInf"
| "fadd NegInf _ = NegInf"
| "fadd _ PosInf = PosInf"
| "fadd _ NegInf = NegInf"

definition fsub :: "pyfloat \<Rightarrow> pyfloat \<Rightarrow> pyfloat" where
  "fsub x y = fadd x (fneg y)"

text \<open>\<open>float(n)\<close> as applied implicitly to the \<open>int\<close> operand of a mixed operation.\<close>

definition int_to_float :: "int \<Rightarrow> pyexc + pyfloat" where
  "int_to_float n =
     (case fround n 0 of
        Finite m e \<Rightarrow> Inr (Finite m e)
      | _ \<Rightarrow> Inl (OverflowError ''int too large to convert to float''))"

text \<open>\<open>int(x)\<close> on a float: truncation towards zero.\<close>

fun float_to_int :: "pyfloat \<Rightarrow> pyexc + int" where
  "float_to_int (Finite m e) =
     Inr (if 0 \<le> e then m * 2 ^ nat e else sgn m * (\<bar>m\<bar> div 2 ^ nat (- e)))"
| "float_to_int PosInf = Inl (OverflowError ''cannot convert float infinity to integer'')"
| "float_to_int NegInf = Inl (OverflowError ''cannot convert float infinity to integer'')"
| "float_to_int NaN = Inl (ValueError ''cannot convert float NaN to integer'')"

text \<open>The literals \<open>0.05\<close>, \<open>0.8\<close>, \<open>0.4\<close> and the integer \<open>1\<close> as a float.\<close>

definition lit_0_05 :: pyfloat where "lit_0_05 = Finite 3602879701896397 (- 56)"
definition lit_0_8 :: pyfloat where "lit_0_8 = Finite 3602879701896397 (- 52)"
definition lit_0_4 :: pyfloat where "lit_0_4 = Finite 3602879701896397 (- 53)"


subsection \<open>JSON documents\<close>

text \<open>
  The value \<open>request.execute()\<close> returns is a parsed JSON document. Its numbers are taken to
  be integers (the statistics of the platform arrive as strings); a \<open>dict\<close> is an association
  list read with \<open>map_of\<close>.
\<close>

datatype json =
    JNull
  | JBool bool
  | JNum int
  | JStr string
  | JArr "json list"
  | JObj "(string \<times> json) list"

definition quote :: string where
  "quote = [CHR 0x27]"

definition type_name :: "json \<Rightarrow> string" where
  "type_name v =
     (case v of JNull \<Rightarrow> ''NoneType'' | JBool _ \<Rightarrow> ''bool'' | JNum _ \<Rightarrow> ''int''
      | JStr _ \<Rightarrow> ''str'' | JArr _ \<Rightarrow> ''list'' | JObj _ \<Rightarrow> ''dict'')"

text \<open>\<open>obj[key]\<close> for a string literal \<open>key\<close>.\<close>

definition py_getitem :: "json \<Rightarrow> string \<Rightarrow> pyexc + json" where
  "py_getitem obj key =
     (case obj of
        JObj kvs \<Rightarrow>
          (case map_of kvs key of
             None \<Rightarrow> Inl (KeyError (quote @ key @ quote))
           | Some v \<Rightarrow> Inr v)
      | JArr _ \<Rightarrow> Inl (TypeError ''list indices must be integers or slices, not str'')
      | JStr _ \<Rightarrow> Inl (TypeError (''string indices must be integers, not '' @ quote @ ''str'' @ quote))
      | _ \<Rightarrow> Inl (TypeError (quote @ type_name obj @ quote @ '' object is not subscriptable'')))"

text \<open>\<open>obj[0]\<close>.\<close>

definition py_getitem0 :: "json \<Rightarrow> pyexc + json" where
  "py_getitem0 obj =
     (case obj of
        JArr [] \<Rightarrow> Inl (IndexError ''list index out of range'')
      | JArr (x # _) \<Rightarrow> Inr x
      | JStr [] \<Rightarrow> Inl (IndexError ''string index out of range'')
      | JStr (c # _) \<Rightarrow> Inr (JStr [c])
      | JObj _ \<Rightarrow> Inl (KeyError ''0'')
      | _ \<Rightarrow> Inl (TypeError (quote @ type_name obj @ quote @ '' object is not subscriptable'')))"

fun contains_str :: "string \<Rightarrow> string \<Rightarrow> bool" where
  "contains_str xs [] = (xs = [])"
| "contains_str xs (y # ys) = (take (length xs) (y # ys) = xs \<or> contains_str xs ys)"

text \<open>\<open>key in obj\<close> for a string literal \<open>key\<close>.\<close>

definition py_in :: "string \<Rightarrow> json \<Rightarrow> pyexc + bool" where
  "py_in key obj =
     (case obj of
        JObj kvs \<Rightarrow> Inr (map_of kvs key \<noteq> None)
      | JArr xs \<Rightarrow> Inr (JStr key \<in> set xs)
      | JStr s \<Rightarrow> Inr (contains_str key s)
      | _ \<Rightarrow> Inl (TypeError (''argument of type '' @ quote @ type_name obj @ quote @ '' is not iterable'')))"

text \<open>The truth value of an object in a condition.\<close>

fun py_truthy :: "json \<Rightarrow> bool" where
  "py_truthy JNull = False"
| "py_truthy (JBool b) = b"
| "py_truthy (JNum n) = (n \<noteq> 0)"
| "py_truthy (JStr s) = (s \<noteq> [])"
| "py_truthy (JArr xs) = (xs \<noteq> [])"
| "py_truthy (JObj kvs) = (kvs \<noteq> [])"

text \<open>\<open>obj.get(key, default)\<close>.\<close>

definition py_get :: "json \<Rightarrow> string \<Rightarrow> json \<Rightarrow> pyexc + json" where
  "py_get obj key dflt =
     (case obj of
        JObj kvs \<Rightarrow> (case map_of kvs key of None \<Rightarrow> Inr dflt | Some v \<Rightarrow> Inr v)
      | _ \<Rightarrow> Inl (AttributeError (quote @ type_name obj @ quote @ '' object has no attribute '' @ quote @ ''get'' @ quote)))"

text \<open>The elements a \<open>for\<close> clause iterates over.\<close>

definition py_iter :: "json \<Rightarrow> pyexc + json list" where
  "py_iter obj =
     (case obj of
        JArr xs \<Rightarrow> Inr xs
      | JObj kvs \<Rightarrow> Inr (map (\<lambda>kv. JStr (fst kv)) kvs)
      | JStr s \<Rightarrow> Inr (map (\<lambda>c. JStr [c]) s)
      | _ \<Rightarrow> Inl (TypeError (quote @ type_name obj @ quote @ '' object is not iterable'')))"

subsection \<open>\<open>int(x)\<close> on a string\<close>

text \<open>
  \<open>int\<close> strips white space, reads an optional sign and then decimal digits, in which
  single underscores may separate digits. Characters are code points below 256, none of
  which beyond ASCII is a decimal digit. The white space that \<open>int\<close> strips is the ASCII
  white space (the characters 9 to 13 and the blank, 32) and, beyond ASCII, the code
  points 133 and 160; the separators 28 to 31 are not stripped, so that
  \<open>int('\x1c12')\<close> raises \<open>ValueError\<close>. A literal of more than
  \<open>int_max_str_digits\<close> digits is refused (the default limit of CPython 3.11 and later).
\<close>

definition is_space :: "char \<Rightarrow> bool" where
  "is_space c = (let n = of_char c :: nat in
     (9 \<le> n \<and> n \<le> 13) \<or> n = 32 \<or> n = 133 \<or> n = 160)"

definition is_digit :: "char \<Rightarrow> bool" where
  "is_digit c = (let n = of_char c :: nat in 48 \<le> n \<and> n \<le> 57)"

definition digit_val :: "char \<Rightarrow> int" where
  "digit_val c = int (of_char c) - 48"

definition strip :: "string \<Rightarrow> string" where
  "strip s = rev (dropWhile is_space (rev (dropWhile is_space s)))"

text \<open>
  \<open>digits_ok prev s\<close>: \<open>s\<close> continues a digit sequence whose previous character was a
  digit (\<open>prev\<close>) or an underscore or nothing (\<open>\<not> prev\<close>), and ends in a digit.
\<close>

fun digits_ok :: "bool \<Rightarrow> string \<Rightarrow> bool" where
  "digits_ok prev [] = prev"
| "digits_ok prev (c # cs) =
     (if is_digit c then digits_ok True cs
      else if c = CHR ''_'' \<and> prev then digits_ok False cs
      else False)"

definition digits_value :: "string \<Rightarrow> int" where
  "digits_value s = foldl (\<lambda>acc c. 10 * acc + digit_val c) 0 (filter is_digit s)"

definition int_max_str_digits :: nat where
  "int_max_str_digits = 4300"

definition invalid_literal :: "string \<Rightarrow> pyexc" where
  "invalid_literal s = ValueError (''invalid literal for int() with base 10: '' @ quote @ s @ quote)"

definition int_of_str :: "string \<Rightarrow> pyexc + int" where
  "int_of_str s =
     (let t = strip s;
          neg = (t \<noteq> [] \<and> hd t = CHR ''-'');
          body = (if t \<noteq> [] \<and> (hd t = CHR ''-'' \<or> hd t = CHR ''+'') then tl t else t)
      in if \<not> digits_ok False body then Inl (invalid_literal s)
         else if length (filter is_digit body) > int_max_str_digits
         then Inl (ValueError ''Exceeds the limit (4300 digits) for integer string conversion'')
         else Inr (if neg then - digits_value body else digits_value body))"

definition py_int :: "json \<Rightarrow> pyexc + int" where
  "py_int v =
     (case v of
        JNum n \<Rightarrow> Inr n
      | JBool b \<Rightarrow> Inr (if b then 1 else 0)
      | JStr s \<Rightarrow> int_of_str s
      | _ \<Rightarrow> Inl (TypeError (''int() argument must be a string, a bytes-like object or a real number, not ''
                 @ quote @ type_name v @ quote)))"

section \<open>The environment: platform transport, clock and random source\<close>

text \<open>
  A request is what one of the \<open>list(...)\<close> calls of the client builds; building and
  executing it is one step for the callers below, which wrap both in the same \<open>try\<close>.
\<close>

datatype request =
    ChannelsList_id string json
  | ChannelsList_forUsername string json
  | SearchList string json string int
  | PlaylistItemsList string json int
  | VideosList string string

text \<open>
  The platform answers a request with a document or an exception; the answer may depend
  on all requests made so far (\<open>api\<close> receives the log ending in the current request).
  \<open>calls\<close> is the log of requests. \<open>clock k\<close> is the calendar day (proleptic Gregorian
  ordinal, as \<open>date.toordinal()\<close>) of the \<open>k\<close>-th reading of \<open>datetime.now()\<close>, and
  \<open>rng k\<close> the \<open>k\<close>-th result of \<open>random.random()\<close>, the float \<open>rng k / 2 ^ 53\<close>.
\<close>

record world =
  api :: "request list \<Rightarrow> pyexc + json"
  calls :: "request list"
  clock :: "nat \<Rightarrow> int"
  ticks :: nat
  rng :: "nat \<Rightarrow> 53 word"
  draws :: nat

definition execute :: "request \<Rightarrow> world \<Rightarrow> (pyexc + json) \<times> world" where
  "execute r w = (let cs = calls w @ [r] in (api w cs, w\<lparr>calls := cs\<rparr>))"

definition datetime_now :: "world \<Rightarrow> int \<times> world" where
  "datetime_now w = (clock w (ticks w), w\<lparr>ticks := Suc (ticks w)\<rparr>)"

definition random_random :: "world \<Rightarrow> pyfloat \<times> world" where
  "random_random w = (Finite (uint (rng w (draws w))) (- 53), w\<lparr>draws := Suc (draws w)\<rparr>)"

section \<open>\<open>YouTubeAPI\<close>\<close>

subsection \<open>\<open>_format_channel_data\<close> and \<open>_format_video_data\<close>\<close>

record channel =
  ch_id :: json
  ch_title :: json
  ch_description :: json
  ch_custom_url :: json
  ch_published_at :: json
  ch_thumbnails :: json
  ch_statistics :: json
  ch_branding_settings :: json
  subscriber_count :: int
  view_count :: int
  video_count :: int

record video =
  v_id :: json
  v_title :: json
  v_description :: json
  v_published_at :: json
  v_thumbnails :: json
  v_statistics :: json
  v_duration :: json
  v_view_count :: int
  like_count :: int
  comment_count :: int

text \<open>Sequencing of computations that may raise.\<close>

definition bind_exc :: "pyexc + 'a \<Rightarrow> ('a \<Rightarrow> pyexc + 'b) \<Rightarrow> pyexc + 'b" where
  "bind_exc r f = (case r of Inl e \<Rightarrow> Inl e | Inr x \<Rightarrow> f x)"

text \<open>The statistics expression \<open>int(data['statistics'].get(key, 0))\<close>.\<close>

definition stat_count :: "json \<Rightarrow> string \<Rightarrow> pyexc + int" where
  "stat_count data key =
     bind_exc (py_getitem data ''statistics'') (\<lambda>st.
     bind_exc (py_get st key (JNum 0)) py_int)"

definition snippet_field :: "json \<Rightarrow> string \<Rightarrow> pyexc + json" where
  "snippet_field data key = bind_exc (py_getitem data ''snippet'') (\<lambda>sn. py_getitem sn key)"

definition format_channel_data :: "json \<Rightarrow> pyexc + channel" where
  "format_channel_data channel_data =
     bind_exc (py_getitem channel_data ''id'') (\<lambda>i.
     bind_exc (snippet_field channel_data ''title'') (\<lambda>t.
     bind_exc (snippet_field channel_data ''description'') (\<lambda>d.
     bind_exc (bind_exc (py_getitem channel_data ''snippet'') (\<lambda>sn. py_get sn ''customUrl'' (JStr []))) (\<lambda>cu.
     bind_exc (snippet_field channel_data ''publishedAt'') (\<lambda>pa.
     bind_exc (snippet_field channel_data ''thumbnails'') (\<lambda>th.
     bind_exc (py_getitem channel_data ''statistics'') (\<lambda>st.
     bind_exc (py_get channel_data ''brandingSettings'' (JObj [])) (\<lambda>bs.
     bind_exc (stat_count channel_data ''subscriberCount'') (\<lambda>sc.
     bind_exc (stat_count channel_data ''viewCount'') (\<lambda>vc.
     bind_exc (stat_count channel_data ''videoCount'') (\<lambda>nc.
     Inr \<lparr>ch_id = i, ch_title = t, ch_description = d, ch_custom_url = cu,
          ch_published_at = pa, ch_thumbnails = th, ch_statistics = st,
          ch_branding_settings = bs, subscriber_count = sc, view_count = vc,
          video_count = nc\<rparr>)))))))))))"

definition format_video_data :: "json \<Rightarrow> pyexc + video" where
  "format_video_data video_data =
     bind_exc (py_getitem video_data ''id'') (\<lambda>i.
     bind_exc (snippet_field video_data ''title'') (\<lambda>t.
     bind_exc (snippet_field video_data ''description'') (\<lambda>d.
     bind_exc (snippet_field video_data ''publishedAt'') (\<lambda>pa.
     bind_exc (snippet_field video_data ''thumbnails'') (\<lambda>th.
     bind_exc (py_getitem video_data ''statistics'') (\<lambda>st.
     bind_exc (bind_exc (py_getitem video_data ''contentDetails'') (\<lambda>cd. py_getitem cd ''duration'')) (\<lambda>du.
     bind_exc (stat_count video_data ''viewCount'') (\<lambda>vc.
     bind_exc (stat_count video_data ''likeCount'') (\<lambda>lc.
     bind_exc (stat_count video_data ''commentCount'') (\<lambda>cc.
     Inr \<lparr>v_id = i, v_title = t, v_description = d, v_published_at = pa,
          v_thumbnails = th, v_statistics = st, v_duration = du, v_view_count = vc,
          like_count = lc, comment_count = cc\<rparr>))))))))))"

subsection \<open>\<open>get_channel_info\<close>\<close>

definition channel_parts :: string where
  "channel_parts = ''snippet,statistics,brandingSettings''"

text \<open>
  \<open>if 'items' in response and response['items']: return
  self._format_channel_data(response['items'][0])\<close>: \<open>Inr (Some c)\<close> is the return of
  \<open>c\<close>, \<open>Inr None\<close> the condition being false.
\<close>

definition format_first_item :: "json \<Rightarrow> pyexc + channel option" where
  "format_first_item response =
     bind_exc (py_in ''items'' response) (\<lambda>present.
       if \<not> present then Inr None
       else bind_exc (py_getitem response ''items'') (\<lambda>items.
         if \<not> py_truthy items then Inr None
         else bind_exc (py_getitem0 items) (\<lambda>item.
              bind_exc (format_channel_data item) (\<lambda>c. Inr (Some c)))))"

text \<open>
  One lookup inside its \<open>try: ... except Exception as e: pass\<close>: every exception, of the
  transport or of the formatting, ends the \<open>try\<close> without a return.
\<close>

definition lookup :: "request \<Rightarrow> world \<Rightarrow> channel option \<times> world" where
  "lookup r w =
     (case execute r w of
        (Inl e, w') \<Rightarrow> (None, w')
      | (Inr response, w') \<Rightarrow>
          (case format_first_item response of Inl e \<Rightarrow> (None, w') | Inr c \<Rightarrow> (c, w')))"

text \<open>The channel id of the first search result, when the search has one.\<close>

definition first_channel_id :: "json \<Rightarrow> pyexc + json option" where
  "first_channel_id search_response =
     bind_exc (py_in ''items'' search_response) (\<lambda>present.
       if \<not> present then Inr None
       else bind_exc (py_getitem search_response ''items'') (\<lambda>items.
         if \<not> py_truthy items then Inr None
         else bind_exc (py_getitem0 items) (\<lambda>item.
              bind_exc (py_getitem item ''id'') (\<lambda>i.
              bind_exc (py_getitem i ''channelId'') (\<lambda>channel_id. Inr (Some channel_id))))))"

definition search_lookup :: "string \<Rightarrow> world \<Rightarrow> channel option \<times> world" where
  "search_lookup channel_identifier w =
     (case execute (SearchList ''snippet'' (JStr channel_identifier) ''channel'' 1) w of
        (Inl e, w') \<Rightarrow> (None, w')
      | (Inr search_response, w') \<Rightarrow>
          (case first_channel_id search_response of
             Inl e \<Rightarrow> (None, w')
           | Inr None \<Rightarrow> (None, w')
           | Inr (Some channel_id) \<Rightarrow> lookup (ChannelsList_id channel_parts channel_id) w'))"

definition strip_at :: "string \<Rightarrow> string" where
  "strip_at channel_identifier =
     (if channel_identifier \<noteq> [] \<and> hd channel_identifier = CHR ''@''
      then tl channel_identifier else channel_identifier)"

definition not_found_message :: "string \<Rightarrow> string" where
  "not_found_message channel_identifier =
     ''Channel '' @ quote @ channel_identifier @ quote
       @ '' not found. Please check the channel ID or username.''"

text \<open>The body of the outer \<open>try\<close>, after the identifier has lost its \<open>@\<close>.\<close>

definition resolve_tiers :: "string \<Rightarrow> world \<Rightarrow> (pyexc + channel) \<times> world" where
  "resolve_tiers channel_identifier w =
     (case lookup (ChannelsList_id channel_parts (JStr channel_identifier)) w of
        (Some c, w1) \<Rightarrow> (Inr c, w1)
      | (None, w1) \<Rightarrow>
     (case lookup (ChannelsList_forUsername channel_parts (JStr channel_identifier)) w1 of
        (Some c, w2) \<Rightarrow> (Inr c, w2)
      | (None, w2) \<Rightarrow>
     (case search_lookup channel_identifier w2 of
        (Some c, w3) \<Rightarrow> (Inr c, w3)
      | (None, w3) \<Rightarrow> (Inl (ValueError (not_found_message channel_identifier)), w3))))"

text \<open>The two handlers of the outer \<open>try\<close>.\<close>

definition channel_info_handler :: "string \<Rightarrow> pyexc \<Rightarrow> pyexc" where
  "channel_info_handler channel_identifier e =
     (case e of
        HttpError status msg \<Rightarrow>
          (if status = 403
           then ValueError ''API quota exceeded or invalid API key. Please check your API key and quota.''
           else if status = 404
           then ValueError (''Channel '' @ quote @ channel_identifier @ quote @ '' not found'')
           else ValueError (''API Error: '' @ msg))
      | _ \<Rightarrow> ValueError (''Error fetching channel info: '' @ str_exc e))"

definition get_channel_info :: "string \<Rightarrow> world \<Rightarrow> (pyexc + channel) \<times> world" where
  "get_channel_info channel_identifier w =
     (let stripped = strip_at channel_identifier in
      case resolve_tiers stripped w of
        (Inl e, w') \<Rightarrow> (Inl (channel_info_handler stripped e), w')
      | (Inr c, w') \<Rightarrow> (Inr c, w'))"

subsection \<open>\<open>get_channel_videos\<close>\<close>

fun map_exc :: "('a \<Rightarrow> pyexc + 'b) \<Rightarrow> 'a list \<Rightarrow> pyexc + 'b list" where
  "map_exc f [] = Inr []"
| "map_exc f (x # xs) =
     bind_exc (f x) (\<lambda>y. bind_exc (map_exc f xs) (\<lambda>ys. Inr (y # ys)))"

definition digit_char :: "int \<Rightarrow> char" where
  "digit_char d = char_of (48 + d)"

text \<open>The decimal numeral of a non-negative integer.\<close>

function decimal :: "int \<Rightarrow> string" where
  "decimal n = (if n < 10 then [digit_char n] else decimal (n div 10) @ [digit_char (n mod 10)])"
  by pat_completeness auto
termination
  by (relation "measure nat") auto

declare decimal.simps [simp del]

text \<open>\<open>','.join(video_ids)\<close>: every element has to be a string.\<close>

fun join_ids :: "nat \<Rightarrow> json list \<Rightarrow> pyexc + string" where
  "join_ids k [] = Inr []"
| "join_ids k (JStr s # rest) =
     bind_exc (join_ids (Suc k) rest) (\<lambda>t. Inr (if rest = [] then s else s @ '','' @ t))"
| "join_ids k (v # rest) =
     Inl (TypeError (''sequence item '' @ decimal (int k) @ '': expected str instance, ''
            @ type_name v @ '' found''))"

definition uploads_playlist :: "json \<Rightarrow> pyexc + json" where
  "uploads_playlist channel_response =
     bind_exc (py_getitem channel_response ''items'') (\<lambda>items.
       if \<not> py_truthy items then Inl (ValueError ''Channel not found'')
       else bind_exc (py_getitem channel_response ''items'') (\<lambda>items'.
            bind_exc (py_getitem0 items') (\<lambda>item.
            bind_exc (py_getitem item ''contentDetails'') (\<lambda>cd.
            bind_exc (py_getitem cd ''relatedPlaylists'') (\<lambda>rp.
            py_getitem rp ''uploads'')))))"

definition video_ids_of :: "json \<Rightarrow> pyexc + json list" where
  "video_ids_of videos_response =
     bind_exc (py_getitem videos_response ''items'') (\<lambda>items.
     bind_exc (py_iter items) (\<lambda>xs.
     map_exc (\<lambda>item. bind_exc (py_getitem item ''contentDetails'') (\<lambda>cd. py_getitem cd ''videoId'')) xs))"

definition format_videos :: "json \<Rightarrow> pyexc + video list" where
  "format_videos video_details_response =
     bind_exc (py_getitem video_details_response ''items'') (\<lambda>items.
     bind_exc (py_iter items) (\<lambda>xs. map_exc format_video_data xs))"

text \<open>The body of the \<open>try\<close>.\<close>

definition fetch_videos :: "json \<Rightarrow> int \<Rightarrow> world \<Rightarrow> (pyexc + video list) \<times> world" where
  "fetch_videos channel_id max_results w =
     (case execute (ChannelsList_id ''contentDetails'' channel_id) w of
        (Inl e, w1) \<Rightarrow> (Inl e, w1)
      | (Inr channel_response, w1) \<Rightarrow>
     (case uploads_playlist channel_response of
        Inl e \<Rightarrow> (Inl e, w1)
      | Inr uploads_playlist_id \<Rightarrow>
     (case execute (PlaylistItemsList ''snippet,contentDetails'' uploads_playlist_id max_results) w1 of
        (Inl e, w2) \<Rightarrow> (Inl e, w2)
      | (Inr videos_response, w2) \<Rightarrow>
     (case video_ids_of videos_response of
        Inl e \<Rightarrow> (Inl e, w2)
      | Inr video_ids \<Rightarrow>
          if video_ids = [] then (Inr [], w2)
          else
     (case join_ids 0 video_ids of
        Inl e \<Rightarrow> (Inl e, w2)
      | Inr ids \<Rightarrow>
     (case execute (VideosList ''snippet,statistics,contentDetails'' ids) w2 of
        (Inl e, w3) \<Rightarrow> (Inl e, w3)
      | (Inr video_details_response, w3) \<Rightarrow> (format_videos video_details_response, w3)))))))"

text \<open>Both handlers raise the same \<open>ValueError\<close>, since \<open>f"{e}"\<close> is \<open>str(e)\<close>.\<close>

definition videos_handler :: "pyexc \<Rightarrow> pyexc" where
  "videos_handler e = ValueError (''Error fetching videos: '' @ str_exc e)"

definition get_channel_videos :: "json \<Rightarrow> int \<Rightarrow> world \<Rightarrow> (pyexc + video list) \<times> world" where
  "get_channel_videos channel_id max_results w =
     (case fetch_videos channel_id max_results w of
        (Inl e, w') \<Rightarrow> (Inl (videos_handler e), w')
      | (Inr vs, w') \<Rightarrow> (Inr vs, w'))"

subsection \<open>\<open>generate_historical_data\<close>\<close>

definition HISTORICAL_MONTHS :: nat where
  "HISTORICAL_MONTHS = 12"

text \<open>
  A point of a history: \<open>hp_date\<close> is the calendar day that the string
  \<open>date.strftime('%Y-%m-%d')\<close> names, as its ordinal; \<open>hp_value\<close> is the entry under
  \<open>'subscribers'\<close>, \<open>'views'\<close> or \<open>'videos'\<close>.
\<close>

record history_point =
  hp_date :: int
  hp_value :: int

record historical_data =
  subscriber_history :: "history_point list"
  view_history :: "history_point list"
  video_history :: "history_point list"

text \<open>
  \<open>datetime.now() - timedelta(days=30 * i)\<close>: a \<open>timedelta\<close> holds at most 999999999 days,
  and no \<open>datetime\<close> lies before day 1 (the first of January of the year 1).
\<close>

definition days_before :: "int \<Rightarrow> int \<Rightarrow> pyexc + int" where
  "days_before today days =
     (if days > 999999999
      then Inl (OverflowError (''days='' @ decimal days @ ''; must have magnitude <= 999999999''))
      else if today - days < 1 then Inl (OverflowError ''date value out of range'')
      else Inr (today - days))"

text \<open>\<open>growth_factor = 1 - (i * 0.05)\<close>\<close>

definition growth_factor :: "nat \<Rightarrow> pyexc + pyfloat" where
  "growth_factor i =
     bind_exc (int_to_float (int i)) (\<lambda>x.
     bind_exc (int_to_float 1) (\<lambda>one. Inr (fsub one (fmul x lit_0_05))))"

text \<open>\<open>random_variation = 0.8 + random.random() * 0.4\<close>, from the result of \<open>random.random()\<close>.\<close>

definition variation_of :: "pyfloat \<Rightarrow> pyfloat" where
  "variation_of r = fadd lit_0_8 (fmul r lit_0_4)"

text \<open>\<open>int(current * growth_factor * random_variation)\<close>\<close>

definition history_value :: "int \<Rightarrow> pyfloat \<Rightarrow> pyfloat \<Rightarrow> pyexc + int" where
  "history_value current g v =
     bind_exc (int_to_float current) (\<lambda>c. float_to_int (fmul (fmul c g) v))"

definition append_point :: "history_point list \<Rightarrow> int \<Rightarrow> int \<Rightarrow> history_point list" where
  "append_point h d x = h @ [\<lparr>hp_date = d, hp_value = x\<rparr>]"

text \<open>One iteration of the loop, for the index \<open>i\<close>.\<close>

definition history_step ::
  "channel \<Rightarrow> nat \<Rightarrow> historical_data \<Rightarrow> world \<Rightarrow> (pyexc + historical_data) \<times> world" where
  "history_step channel_data i h w =
     (case datetime_now w of (today, w1) \<Rightarrow>
     (case days_before today (30 * int i) of
        Inl e \<Rightarrow> (Inl e, w1)
      | Inr date_str \<Rightarrow>
     (case growth_factor i of
        Inl e \<Rightarrow> (Inl e, w1)
      | Inr g \<Rightarrow>
     (case random_random w1 of (r, w2) \<Rightarrow>
       (let random_variation = variation_of r in
        (bind_exc (history_value (subscriber_count channel_data) g random_variation) (\<lambda>s.
         bind_exc (history_value (view_count channel_data) g random_variation) (\<lambda>v.
         bind_exc (history_value (video_count channel_data) g random_variation) (\<lambda>n.
         Inr \<lparr>subscriber_history = append_point (subscriber_history h) date_str s,
              view_history = append_point (view_history h) date_str v,
              video_history = append_point (video_history h) date_str n\<rparr>))), w2))))))"

fun history_loop ::
  "channel \<Rightarrow> nat list \<Rightarrow> historical_data \<Rightarrow> world \<Rightarrow> (pyexc + historical_data) \<times> world" where
  "history_loop channel_data [] h w = (Inr h, w)"
| "history_loop channel_data (i # rest) h w =
     (case history_step channel_data i h w of
        (Inl e, w') \<Rightarrow> (Inl e, w')
      | (Inr h', w') \<Rightarrow> history_loop channel_data rest h' w')"

text \<open>\<open>range(months, 0, -1)\<close>\<close>

definition range_down :: "nat \<Rightarrow> nat list" where
  "range_down months = rev [1..<Suc months]"

definition no_history :: historical_data where
  "no_history = \<lparr>subscriber_history = [], view_history = [], video_history = []\<rparr>"

text \<open>The function for any number of months, and for the configured one.\<close>

definition historical_series ::
  "nat \<Rightarrow> channel \<Rightarrow> world \<Rightarrow> (pyexc + historical_data) \<times> world" where
  "historical_series months channel_data w =
     history_loop channel_data (range_down months) no_history w"

definition generate_historical_data ::
  "channel \<Rightarrow> world \<Rightarrow> (pyexc + historical_data) \<times> world" where
  "generate_historical_data channel_data w = historical_series HISTORICAL_MONTHS channel_data w"

subsection \<open>\<open>get_comprehensive_stats\<close>\<close>

record stats = historical_data +
  st_channel :: channel
  st_videos :: "video list"

definition stats_handler :: "pyexc \<Rightarrow> pyexc" where
  "stats_handler e = ValueError (''Error getting comprehensive stats: '' @ str_exc e)"

definition get_comprehensive_stats :: "string \<Rightarrow> world \<Rightarrow> (pyexc + stats) \<times> world" where
  "get_comprehensive_stats channel_identifier w =
     (case get_channel_info channel_identifier w of
        (Inl e, w1) \<Rightarrow> (Inl (stats_handler e), w1)
      | (Inr channel_data, w1) \<Rightarrow>
     (case get_channel_videos (ch_id channel_data) 50 w1 of
        (Inl e, w2) \<Rightarrow> (Inl (stats_handler e), w2)
      | (Inr videos, w2) \<Rightarrow>
     (case generate_historical_data channel_data w2 of
        (Inl e, w3) \<Rightarrow> (Inl (stats_handler e), w3)
      | (Inr h, w3) \<Rightarrow>
          (Inr \<lparr>subscriber_history = subscriber_history h, view_history = view_history h,
                video_history = video_history h, st_channel = channel_data,
                st_videos = videos\<rparr>, w3))))"

section \<open>Example environments\<close>

definition example_record :: json where
  "example_record =
     JObj [(''id'', JStr ''UC1''),
           (''snippet'', JObj [(''title'', JStr ''T''), (''description'', JStr ''D''),
                               (''publishedAt'', JStr ''P''), (''thumbnails'', JObj [])]),
           (''statistics'', JObj [(''viewCount'', JStr ''10000''), (''videoCount'', JStr ''10'')])]"

definition example_channel :: channel where
  "example_channel =
     \<lparr>ch_id = JStr ''UC1'', ch_title = JStr ''T'', ch_description = JStr ''D'',
      ch_custom_url = JStr [], ch_published_at = JStr ''P'', ch_thumbnails = JObj [],
      ch_statistics = JObj [(''viewCount'', JStr ''10000''), (''videoCount'', JStr ''10'')],
      ch_branding_settings = JObj [], subscriber_count = 0, view_count = 10000,
      video_count = 10\<rparr>"

definition example_uploads :: json where
  "example_uploads =
     JObj [(''items'', JArr [JObj [(''contentDetails'',
        JObj [(''relatedPlaylists'', JObj [(''uploads'', JStr ''UU1'')])])]])]"

text \<open>A platform that knows one channel, which has no uploads.\<close>

definition api_found :: "request list \<Rightarrow> pyexc + json" where
  "api_found cs =
     (case last cs of
        ChannelsList_id part i \<Rightarrow>
          (if part = ''contentDetails'' then Inr example_uploads
           else Inr (JObj [(''items'', JArr [example_record])]))
      | PlaylistItemsList part i m \<Rightarrow> Inr (JObj [(''items'', JArr [])])
      | _ \<Rightarrow> Inl (HttpError 500 ''backend error''))"

text \<open>A platform that finds nothing, and one that refuses every request.\<close>

definition api_empty :: "request list \<Rightarrow> pyexc + json" where
  "api_empty cs = Inr (JObj [(''items'', JArr [])])"

definition api_quota :: "request list \<Rightarrow> pyexc + json" where
  "api_quota cs = Inl (HttpError 403 ''quotaExceeded'')"

definition world_of :: "(request list \<Rightarrow> pyexc + json) \<Rightarrow> world" where
  "world_of a = \<lparr>api = a, calls = [], clock = (\<lambda>k. 739000), ticks = 0,
                 rng = (\<lambda>k. 2 ^ 52), draws = 0\<rparr>"

text \<open>The requests of the three tiers for an identifier.\<close>

definition three_calls :: "string \<Rightarrow> request list" where
  "three_calls s =
     [ChannelsList_id channel_parts (JStr s),
      ChannelsList_forUsername channel_parts (JStr s),
      SearchList ''snippet'' (JStr s) ''channel'' 1]"


text \<open>
  Two properties of floats used in the proofs: \<open>fbound k x\<close> says that \<open>x\<close> is finite and
  of magnitude below \<open>2 ^ k\<close>, and \<open>fnonneg x\<close> that \<open>x\<close> is not negative.
\<close>

definition fbound :: "int \<Rightarrow> pyfloat \<Rightarrow> bool" where
  "fbound k x = (case x of Finite m e \<Rightarrow> int (bit_length \<bar>m\<bar>) + e \<le> k | _ \<Rightarrow> False)"

definition fnonneg :: "pyfloat \<Rightarrow> bool" where
  "fnonneg x = (case x of Finite m e \<Rightarrow> 0 \<le> m | PosInf \<Rightarrow> True | _ \<Rightarrow> False)"

text \<open>
  What one iteration of the loop of \<open>generate_historical_data\<close> appends, for the index
  \<open>i\<close>, the day \<open>today\<close> read from the clock and the single random number \<open>r\<close> drawn
  in that iteration: three points \<open>ps\<close>, \<open>pv\<close>, \<open>pn\<close> with the same date, whose values
  come from the same growth factor and the same variation factor.
\<close>

definition step_points ::
  "channel \<Rightarrow> int \<Rightarrow> 53 word \<Rightarrow> nat \<Rightarrow> history_point \<Rightarrow> history_point \<Rightarrow> history_point \<Rightarrow> bool" where
  "step_points channel_data today r i ps pv pn =
     (hp_date ps = today - 30 * int i \<and> hp_date pv = today - 30 * int i \<and>
      hp_date pn = today - 30 * int i \<and> 1 \<le> today - 30 * int i \<and>
      (\<exists>g. growth_factor i = Inr g \<and>
         history_value (subscriber_count channel_data) g (variation_of (Finite (uint r) (- 53)))
           = Inr (hp_value ps) \<and>
         history_value (view_count channel_data) g (variation_of (Finite (uint r) (- 53)))
           = Inr (hp_value pv) \<and>
         history_value (video_count channel_data) g (variation_of (Finite (uint r) (- 53)))
           = Inr (hp_value pn)))"

text \<open>
  The synthesizer as the specification words it, with the variation factor drawn
  independently per metric per point: three readings of the random source in every
  iteration, one for each metric. It is compared with \<open>history_step\<close>, which follows
  the source.
\<close>

definition independent_step ::
  "channel \<Rightarrow> nat \<Rightarrow> historical_data \<Rightarrow> world \<Rightarrow> (pyexc + historical_data) \<times> world" where
  "independent_step channel_data i h w =
     (case datetime_now w of (today, w1) \<Rightarrow>
     (case days_before today (30 * int i) of
        Inl e \<Rightarrow> (Inl e, w1)
      | Inr date_str \<Rightarrow>
     (case growth_factor i of
        Inl e \<Rightarrow> (Inl e, w1)
      | Inr g \<Rightarrow>
     (case random_random w1 of (r1, w2) \<Rightarrow>
     (case random_random w2 of (r2, w3) \<Rightarrow>
     (case random_random w3 of (r3, w4) \<Rightarrow>
        (bind_exc (history_value (subscriber_count channel_data) g (variation_of r1)) (\<lambda>s.
         bind_exc (history_value (view_count channel_data) g (variation_of r2)) (\<lambda>v.
         bind_exc (history_value (video_count channel_data) g (variation_of r3)) (\<lambda>n.
         Inr \<lparr>subscriber_history = append_point (subscriber_history h) date_str s,
              view_history = append_point (view_history h) date_str v,
              video_history = append_point (video_history h) date_str n\<rparr>))), w4)))))))"

fun independent_loop ::
  "channel \<Rightarrow> nat list \<Rightarrow> historical_data \<Rightarrow> world \<Rightarrow> (pyexc + historical_data) \<times> world" where
  "independent_loop channel_data [] h w = (Inr h, w)"
| "independent_loop channel_data (i # rest) h w =
     (case independent_step channel_data i h w of
        (Inl e, w') \<Rightarrow> (Inl e, w')
      | (Inr h', w') \<Rightarrow> independent_loop channel_data rest h' w')"

definition independent_series ::
  "nat \<Rightarrow> channel \<Rightarrow> world \<Rightarrow> (pyexc + historical_data) \<times> world" where
  "independent_series months channel_data w =
     independent_loop channel_data (range_down months) no_history w"

text \<open>
  Further example environments: a random source whose first number is 0 and whose later
  numbers are the largest one, a clock that passes midnight after its first reading, and
  a channel with \<open>2 ^ 1024\<close> subscribers.
\<close>

definition low_then_high :: "nat \<Rightarrow> 53 word" where
  "low_then_high k = (if k = 0 then 0 else - 1)"




text \<open>The history of the example channel on day 739000, every random number being 0.5.\<close>

definition example_history :: historical_data where
  "example_history =
     \<lparr>subscriber_history =
        [\<lparr>hp_date = 738640, hp_value = 0\<rparr>, \<lparr>hp_date = 738670, hp_value = 0\<rparr>,
         \<lparr>hp_date = 738700, hp_value = 0\<rparr>, \<lparr>hp_date = 738730, hp_value = 0\<rparr>,
         \<lparr>hp_date = 738760, hp_value = 0\<rparr>, \<lparr>hp_date = 738790, hp_value = 0\<rparr>,
         \<lparr>hp_date = 738820, hp_value = 0\<rparr>, \<lparr>hp_date = 738850, hp_value = 0\<rparr>,
         \<lparr>hp_date = 738880, hp_value = 0\<rparr>, \<lparr>hp_date = 738910, hp_value = 0\<rparr>,
         \<lparr>hp_date = 738940, hp_value = 0\<rparr>, \<lparr>hp_date = 738970, hp_value = 0\<rparr>],
      view_history =
        [\<lparr>hp_date = 738640, hp_value = 3999\<rparr>, \<lparr>hp_date = 738670, hp_value = 4500\<rparr>,
         \<lparr>hp_date = 738700, hp_value = 5000\<rparr>, \<lparr>hp_date = 738730, hp_value = 5500\<rparr>,
         \<lparr>hp_date = 738760, hp_value = 6000\<rparr>, \<lparr>hp_date = 738790, hp_value = 6499\<rparr>,
         \<lparr>hp_date = 738820, hp_value = 7000\<rparr>, \<lparr>hp_date = 738850, hp_value = 7500\<rparr>,
         \<lparr>hp_date = 738880, hp_value = 8000\<rparr>, \<lparr>hp_date = 738910, hp_value = 8500\<rparr>,
         \<lparr>hp_date = 738940, hp_value = 9000\<rparr>, \<lparr>hp_date = 738970, hp_value = 9500\<rparr>],
      video_history =
        [\<lparr>hp_date = 738640, hp_value = 3\<rparr>, \<lparr>hp_date = 738670, hp_value = 4\<rparr>,
         \<lparr>hp_date = 738700, hp_value = 5\<rparr>, \<lparr>hp_date = 738730, hp_value = 5\<rparr>,
         \<lparr>hp_date = 738760, hp_value = 6\<rparr>, \<lparr>hp_date = 738790, hp_value = 6\<rparr>,
         \<lparr>hp_date = 738820, hp_value = 7\<rparr>, \<lparr>hp_date = 738850, hp_value = 7\<rparr>,
         \<lparr>hp_date = 738880, hp_value = 8\<rparr>, \<lparr>hp_date = 738910, hp_value = 8\<rparr>,
         \<lparr>hp_date = 738940, hp_value = 9\<rparr>, \<lparr>hp_date = 738970, hp_value = 9\<rparr>]\<rparr>"

definition short_history :: historical_data where
  "short_history =
     \<lparr>subscriber_history = [\<lparr>hp_date = 738940, hp_value = 0\<rparr>, \<lparr>hp_date = 738970, hp_value = 0\<rparr>],
      view_history = [\<lparr>hp_date = 738940, hp_value = 9000\<rparr>, \<lparr>hp_date = 738970, hp_value = 9500\<rparr>],
      video_history = [\<lparr>hp_date = 738940, hp_value = 9\<rparr>, \<lparr>hp_date = 738970, hp_value = 9\<rparr>]\<rparr>"

text \<open>
  A platform on which the uploads listing of the example channel fails, and the bundle
  that \<open>get_comprehensive_stats\<close> returns for the example channel.
\<close>

definition api_no_uploads :: "request list \<Rightarrow> pyexc + json" where
  "api_no_uploads cs =
     (case last cs of
        PlaylistItemsList part i m \<Rightarrow> Inl (HttpError 404 ''playlistNotFound'')
      | _ \<Rightarrow> api_found cs)"

definition example_stats :: stats where
  "example_stats =
     \<lparr>subscriber_history = subscriber_history example_history,
      view_history = view_history example_history,
      video_history = video_history example_history,
      st_channel = example_channel, st_videos = []\<rparr>"

text \<open>The real number that a finite float stands for.\<close>

definition fval :: "pyfloat \<Rightarrow> real" where
  "fval x = (case x of Finite m e \<Rightarrow> of_int m * 2 powr of_int e | _ \<Rightarrow> 0)"


text \<open>
  A channel record without its \<open>statistics\<close> part, and a platform whose by-ID lookup
  answers with this record while its other lookups find nothing.
\<close>

definition bare_record :: json where
  "bare_record =
     JObj [(''id'', JStr ''UC1''),
           (''snippet'', JObj [(''title'', JStr ''T''), (''description'', JStr ''D''),
                               (''publishedAt'', JStr ''P''), (''thumbnails'', JObj [])])]"

definition api_bare :: "request list \<Rightarrow> pyexc + json" where
  "api_bare cs =
     (case last cs of
        ChannelsList_id part i \<Rightarrow> Inr (JObj [(''items'', JArr [bare_record])])
      | _ \<Rightarrow> Inr (JObj [(''items'', JArr [])]))"

section \<open>The channel resolver\<close>

lemma bind_exc_simps [simp]:
  "bind_exc (Inl e) f = Inl e"
  "bind_exc (Inr x) f = f x"
  by (simp_all add: bind_exc_def)

lemma format_first_item_nonempty:
  assumes "map_of kvs ''items'' = Some (JArr (item # rest))"
    and "format_channel_data item = Inr c"
  shows "format_first_item (JObj kvs) = Inr (Some c)"
  using assms by (simp add: format_first_item_def py_in_def py_getitem_def py_getitem0_def)

lemma lookup_hit:
  assumes "api w (calls w @ [r]) = Inr response"
    and "format_first_item response = Inr (Some c)"
  shows "lookup r w = (Some c, w\<lparr>calls := calls w @ [r]\<rparr>)"
  using assms by (simp add: lookup_def execute_def Let_def)

lemma format_example_record: "format_channel_data example_record = Inr example_channel"
  by (simp add: format_channel_data_def example_record_def example_channel_def
      snippet_field_def stat_count_def py_getitem_def py_get_def py_int_def int_of_str_def
      strip_def is_space_def is_digit_def digits_value_def digit_val_def
      int_max_str_digits_def Let_def)

lemma resolve_by_id:
  assumes "api w (calls w @ [ChannelsList_id channel_parts (JStr (strip_at ident))]) = Inr (JObj kvs)"
    and "map_of kvs ''items'' = Some (JArr (item # rest))"
    and "format_channel_data item = Inr c"
  shows "get_channel_info ident w =
           (Inr c, w\<lparr>calls := calls w @ [ChannelsList_id channel_parts (JStr (strip_at ident))]\<rparr>)"
proof -
  have "format_first_item (JObj kvs) = Inr (Some c)"
    using assms(2,3) by (rule format_first_item_nonempty)
  with assms(1) have "lookup (ChannelsList_id channel_parts (JStr (strip_at ident))) w =
      (Some c, w\<lparr>calls := calls w @ [ChannelsList_id channel_parts (JStr (strip_at ident))]\<rparr>)"
    by (rule lookup_hit)
  then show ?thesis
    by (simp add: get_channel_info_def resolve_tiers_def Let_def)
qed

text \<open>
  C7, as amended. When the by-ID lookup on the identifier without its leading \<open>@\<close>
  answers with a non-empty \<open>items\<close> list whose first record \<open>_format_channel_data\<close>
  formats without raising, \<open>get_channel_info\<close> returns that channel, and the request log
  has grown by this one request only: neither the username lookup nor the search has
  been made.
\<close>

theorem tier1_hit_returns_immediately:
  assumes "api w (calls w @ [ChannelsList_id channel_parts (JStr (strip_at ident))]) = Inr (JObj kvs)"
    and "map_of kvs ''items'' = Some (JArr (item # rest))"
    and "format_channel_data item = Inr c"
  shows "get_channel_info ident w =
           (Inr c, w\<lparr>calls := calls w @ [ChannelsList_id channel_parts (JStr (strip_at ident))]\<rparr>)"
  using assms by (rule resolve_by_id)

theorem tier1_hit_returns_immediately_witness:
  "get_channel_info ''@a'' (world_of api_found) =
     (Inr example_channel,
      (world_of api_found)\<lparr>calls := [ChannelsList_id channel_parts (JStr ''a'')]\<rparr>)"
proof -
  have s: "strip_at ''@a'' = ''a''"
    by (simp add: strip_at_def)
  have h1: "api (world_of api_found)
       (calls (world_of api_found) @ [ChannelsList_id channel_parts (JStr (strip_at ''@a''))]) =
       Inr (JObj [(''items'', JArr [example_record])])"
    by (simp add: world_of_def api_found_def channel_parts_def)
  have h2: "map_of [(''items'', JArr [example_record])] ''items'' = Some (JArr (example_record # []))"
    by simp
  from tier1_hit_returns_immediately [OF h1 h2 format_example_record]
  show ?thesis
    by (simp add: s world_of_def)
qed

lemma lookup_raise:
  assumes "api w (calls w @ [r]) = Inl e"
  shows "lookup r w = (None, w\<lparr>calls := calls w @ [r]\<rparr>)"
  using assms by (simp add: lookup_def execute_def Let_def)

lemma lookup_no_items:
  assumes "api w (calls w @ [r]) = Inr (JObj [(''items'', JArr [])])"
  shows "lookup r w = (None, w\<lparr>calls := calls w @ [r]\<rparr>)"
  using assms
  by (simp add: lookup_def execute_def Let_def format_first_item_def py_in_def py_getitem_def)

lemma search_raise:
  assumes "api w (calls w @ [SearchList ''snippet'' (JStr s) ''channel'' 1]) = Inl e"
  shows "search_lookup s w = (None, w\<lparr>calls := calls w @ [SearchList ''snippet'' (JStr s) ''channel'' 1]\<rparr>)"
  using assms by (simp add: search_lookup_def execute_def Let_def)

lemma search_no_items:
  assumes "api w (calls w @ [SearchList ''snippet'' (JStr s) ''channel'' 1]) = Inr (JObj [(''items'', JArr [])])"
  shows "search_lookup s w = (None, w\<lparr>calls := calls w @ [SearchList ''snippet'' (JStr s) ''channel'' 1]\<rparr>)"
  using assms
  by (simp add: search_lookup_def execute_def Let_def first_channel_id_def py_in_def py_getitem_def)

text \<open>
  The body of the outer \<open>try\<close> raises nothing but the not-found \<open>ValueError\<close>; the handler
  for \<open>HttpError\<close> is never entered.
\<close>

lemma resolve_tiers_error:
  assumes "resolve_tiers s w = (Inl e, w')"
  shows "e = ValueError (not_found_message s)"
  using assms
  by (auto simp: resolve_tiers_def split: prod.splits option.splits)

text \<open>
  C6, as amended. When the three tiers yield no result, \<open>get_channel_info\<close> raises a
  \<open>ValueError\<close> whose message names the identifier without its leading \<open>@\<close>.
\<close>

theorem not_found_names_stripped_identifier:
  assumes "lookup (ChannelsList_id channel_parts (JStr (strip_at ident))) w = (None, w1)"
    and "lookup (ChannelsList_forUsername channel_parts (JStr (strip_at ident))) w1 = (None, w2)"
    and "search_lookup (strip_at ident) w2 = (None, w3)"
  shows "get_channel_info ident w =
           (Inl (ValueError (''Error fetching channel info: '' @ not_found_message (strip_at ident))), w3)"
  using assms
  by (simp add: get_channel_info_def resolve_tiers_def channel_info_handler_def Let_def)

lemma strip_at_example: "strip_at ''@a'' = ''a''"
  by (simp add: strip_at_def)

theorem not_found_names_stripped_identifier_witness:
  "get_channel_info ''@a'' (world_of api_empty) =
     (Inl (ValueError (''Error fetching channel info: '' @ not_found_message ''a'')),
      (world_of api_empty)\<lparr>calls := three_calls ''a''\<rparr>)"
proof -
  let ?w = "world_of api_empty"
  let ?w1 = "?w\<lparr>calls := calls ?w @ [ChannelsList_id channel_parts (JStr ''a'')]\<rparr>"
  let ?w2 = "?w1\<lparr>calls := calls ?w1 @ [ChannelsList_forUsername channel_parts (JStr ''a'')]\<rparr>"
  let ?w3 = "?w2\<lparr>calls := calls ?w2 @ [SearchList ''snippet'' (JStr ''a'') ''channel'' 1]\<rparr>"
  have h1: "lookup (ChannelsList_id channel_parts (JStr (strip_at ''@a''))) ?w = (None, ?w1)"
    unfolding strip_at_example by (rule lookup_no_items) (simp add: world_of_def api_empty_def)
  have h2: "lookup (ChannelsList_forUsername channel_parts (JStr (strip_at ''@a''))) ?w1 = (None, ?w2)"
    unfolding strip_at_example by (rule lookup_no_items) (simp add: world_of_def api_empty_def)
  have h3: "search_lookup (strip_at ''@a'') ?w2 = (None, ?w3)"
    unfolding strip_at_example by (rule search_no_items) (simp add: world_of_def api_empty_def)
  from not_found_names_stripped_identifier [OF h1 h2 h3]
  show ?thesis
    by (simp add: strip_at_example world_of_def three_calls_def)
qed

text \<open>
  C6, as stated, fails: for the identifier \<open>@a\<close> the message of the error does not contain
  \<open>@a\<close>.
\<close>

theorem not_found_keeps_at_counterexample:
  "fst (get_channel_info ''@a'' (world_of api_empty)) =
     Inl (ValueError (''Error fetching channel info: '' @ not_found_message ''a'')) \<and>
   \<not> contains_str ''@a'' (''Error fetching channel info: '' @ not_found_message ''a'')"
proof -
  let ?w = "world_of api_empty"
  let ?w1 = "?w\<lparr>calls := calls ?w @ [ChannelsList_id channel_parts (JStr ''a'')]\<rparr>"
  let ?w2 = "?w1\<lparr>calls := calls ?w1 @ [ChannelsList_forUsername channel_parts (JStr ''a'')]\<rparr>"
  have h1: "lookup (ChannelsList_id channel_parts (JStr ''a'')) ?w = (None, ?w1)"
    by (rule lookup_no_items) (simp add: world_of_def api_empty_def)
  have h2: "lookup (ChannelsList_forUsername channel_parts (JStr ''a'')) ?w1 = (None, ?w2)"
    by (rule lookup_no_items) (simp add: world_of_def api_empty_def)
  have h3: "search_lookup ''a'' ?w2 =
      (None, ?w2\<lparr>calls := calls ?w2 @ [SearchList ''snippet'' (JStr ''a'') ''channel'' 1]\<rparr>)"
    by (rule search_no_items) (simp add: world_of_def api_empty_def)
  have "fst (get_channel_info ''@a'' ?w) =
      Inl (ValueError (''Error fetching channel info: '' @ not_found_message ''a''))"
    using h1 h2 h3
    by (simp add: get_channel_info_def resolve_tiers_def channel_info_handler_def Let_def
        strip_at_example)
  moreover have "\<not> contains_str ''@a'' (''Error fetching channel info: '' @ not_found_message ''a'')"
    by (simp add: not_found_message_def quote_def)
  ultimately show ?thesis by simp
qed

lemma lookup_unformattable:
  assumes "api w (calls w @ [r]) = Inr response"
    and "format_first_item response = Inl e"
  shows "lookup r w = (None, w\<lparr>calls := calls w @ [r]\<rparr>)"
  using assms by (simp add: lookup_def execute_def Let_def)

lemma format_bare_record:
  "format_first_item (JObj [(''items'', JArr [bare_record])]) =
     Inl (KeyError (quote @ ''statistics'' @ quote))"
  by (simp add: format_first_item_def py_in_def py_getitem_def py_getitem0_def py_get_def
      format_channel_data_def snippet_field_def bare_record_def)

text \<open>
  C7, as stated, fails: the by-ID lookup answers with a non-empty \<open>items\<close> list, but its
  first record has no \<open>statistics\<close>, so that the formatting raises \<open>KeyError\<close> inside
  the \<open>try\<close> of the first tier; the exception is swallowed there, the username lookup
  and the search are made, and the call ends with the not-found error.
\<close>

theorem tier1_hit_counterexample:
  "api (world_of api_bare)
     (calls (world_of api_bare) @ [ChannelsList_id channel_parts (JStr (strip_at ''@a''))]) =
     Inr (JObj [(''items'', JArr [bare_record])]) \<and>
   get_channel_info ''@a'' (world_of api_bare) =
     (Inl (ValueError (''Error fetching channel info: '' @ not_found_message ''a'')),
      (world_of api_bare)\<lparr>calls := three_calls ''a''\<rparr>)"
proof -
  let ?w = "world_of api_bare"
  let ?w1 = "?w\<lparr>calls := calls ?w @ [ChannelsList_id channel_parts (JStr ''a'')]\<rparr>"
  let ?w2 = "?w1\<lparr>calls := calls ?w1 @ [ChannelsList_forUsername channel_parts (JStr ''a'')]\<rparr>"
  have a: "api ?w (calls ?w @ [ChannelsList_id channel_parts (JStr ''a'')]) =
      Inr (JObj [(''items'', JArr [bare_record])])"
    by (simp add: world_of_def api_bare_def)
  have h1: "lookup (ChannelsList_id channel_parts (JStr ''a'')) ?w = (None, ?w1)"
    using a format_bare_record by (rule lookup_unformattable)
  have h2: "lookup (ChannelsList_forUsername channel_parts (JStr ''a'')) ?w1 = (None, ?w2)"
    by (rule lookup_no_items) (simp add: world_of_def api_bare_def)
  have h3: "search_lookup ''a'' ?w2 =
      (None, ?w2\<lparr>calls := calls ?w2 @ [SearchList ''snippet'' (JStr ''a'') ''channel'' 1]\<rparr>)"
    by (rule search_no_items) (simp add: world_of_def api_bare_def)
  have "get_channel_info ''@a'' ?w =
      (Inl (ValueError (''Error fetching channel info: '' @ not_found_message ''a'')),
       ?w\<lparr>calls := three_calls ''a''\<rparr>)"
    using h1 h2 h3
    by (simp add: get_channel_info_def resolve_tiers_def channel_info_handler_def Let_def
        strip_at_example world_of_def three_calls_def)
  with a show ?thesis
    by (simp add: strip_at_example)
qed

text \<open>
  C2. A platform that answers every request with the status 403: the by-ID lookup fails
  with it, and \<open>get_channel_info\<close> goes on to the username lookup and to the search, and
  ends with the not-found error instead of the quota error of its \<open>HttpError\<close> handler.
\<close>

theorem auth_error_is_swallowed:
  "get_channel_info ''a'' (world_of api_quota) =
     (Inl (ValueError (''Error fetching channel info: '' @ not_found_message ''a'')),
      (world_of api_quota)\<lparr>calls := three_calls ''a''\<rparr>)"
proof -
  let ?w = "world_of api_quota"
  let ?w1 = "?w\<lparr>calls := calls ?w @ [ChannelsList_id channel_parts (JStr ''a'')]\<rparr>"
  let ?w2 = "?w1\<lparr>calls := calls ?w1 @ [ChannelsList_forUsername channel_parts (JStr ''a'')]\<rparr>"
  have h1: "lookup (ChannelsList_id channel_parts (JStr ''a'')) ?w = (None, ?w1)"
    by (rule lookup_raise [where e = "HttpError 403 ''quotaExceeded''"])
      (simp add: world_of_def api_quota_def)
  have h2: "lookup (ChannelsList_forUsername channel_parts (JStr ''a'')) ?w1 = (None, ?w2)"
    by (rule lookup_raise [where e = "HttpError 403 ''quotaExceeded''"])
      (simp add: world_of_def api_quota_def)
  have h3: "search_lookup ''a'' ?w2 =
      (None, ?w2\<lparr>calls := calls ?w2 @ [SearchList ''snippet'' (JStr ''a'') ''channel'' 1]\<rparr>)"
    by (rule search_raise [where e = "HttpError 403 ''quotaExceeded''"])
      (simp add: world_of_def api_quota_def)
  show ?thesis
    using h1 h2 h3
    by (simp add: get_channel_info_def resolve_tiers_def channel_info_handler_def Let_def
        strip_at_def world_of_def three_calls_def)
qed

section \<open>The video fetcher\<close>

lemma no_uploads_no_videos:
  assumes "api w (calls w @ [ChannelsList_id ''contentDetails'' channel_id]) = Inr channel_response"
    and "uploads_playlist channel_response = Inr uploads"
    and "api w (calls w @ [ChannelsList_id ''contentDetails'' channel_id,
            PlaylistItemsList ''snippet,contentDetails'' uploads max_results]) = Inr (JObj kvs)"
    and "map_of kvs ''items'' = Some (JArr [])"
  shows "get_channel_videos channel_id max_results w =
           (Inr [], w\<lparr>calls := calls w @ [ChannelsList_id ''contentDetails'' channel_id,
              PlaylistItemsList ''snippet,contentDetails'' uploads max_results]\<rparr>)"
  using assms
  by (simp add: get_channel_videos_def fetch_videos_def execute_def Let_def video_ids_of_def
      py_getitem_def py_iter_def)

text \<open>
  C8. When the channel has an uploads collection and the listing of that collection has
  no items, \<open>get_channel_videos\<close> returns the empty list; the details of no video are
  requested.
\<close>

theorem empty_uploads_give_no_videos:
  assumes "api w (calls w @ [ChannelsList_id ''contentDetails'' channel_id]) = Inr channel_response"
    and "uploads_playlist channel_response = Inr uploads"
    and "api w (calls w @ [ChannelsList_id ''contentDetails'' channel_id,
            PlaylistItemsList ''snippet,contentDetails'' uploads max_results]) = Inr (JObj kvs)"
    and "map_of kvs ''items'' = Some (JArr [])"
  shows "get_channel_videos channel_id max_results w =
           (Inr [], w\<lparr>calls := calls w @ [ChannelsList_id ''contentDetails'' channel_id,
              PlaylistItemsList ''snippet,contentDetails'' uploads max_results]\<rparr>)"
  using assms by (rule no_uploads_no_videos)

lemma uploads_playlist_example: "uploads_playlist example_uploads = Inr (JStr ''UU1'')"
  by (simp add: uploads_playlist_def example_uploads_def py_getitem_def py_getitem0_def)

theorem empty_uploads_give_no_videos_witness:
  "get_channel_videos (JStr ''UC1'') 50 (world_of api_found) =
     (Inr [], (world_of api_found)\<lparr>calls := [ChannelsList_id ''contentDetails'' (JStr ''UC1''),
        PlaylistItemsList ''snippet,contentDetails'' (JStr ''UU1'') 50]\<rparr>)"
proof -
  have h1: "api (world_of api_found)
      (calls (world_of api_found) @ [ChannelsList_id ''contentDetails'' (JStr ''UC1'')]) =
      Inr example_uploads"
    by (simp add: world_of_def api_found_def)
  have h3: "api (world_of api_found)
      (calls (world_of api_found) @ [ChannelsList_id ''contentDetails'' (JStr ''UC1''),
         PlaylistItemsList ''snippet,contentDetails'' (JStr ''UU1'') 50]) =
      Inr (JObj [(''items'', JArr [])])"
    by (simp add: world_of_def api_found_def)
  have h4: "map_of [(''items'', JArr [])] ''items'' = Some (JArr [])"
    by simp
  from empty_uploads_give_no_videos [OF h1 uploads_playlist_example h3 h4]
  show ?thesis
    by (simp add: world_of_def)
qed

section \<open>Statistics fields\<close>














section \<open>Floating point: magnitude and sign\<close>

lemma bit_length_less: "n < 2 ^ bit_length n"
proof (induction n rule: bit_length.induct)
  case (1 n)
  show ?case
  proof (cases "n \<le> 0")
    case True
    then show ?thesis by (simp add: bit_length.simps)
  next
    case False
    with 1 have "n div 2 < 2 ^ bit_length (n div 2)" by simp
    then have "n < 2 * 2 ^ bit_length (n div 2)" by linarith
    with False show ?thesis by (simp add: bit_length.simps [of n])
  qed
qed

lemma bit_length_ge: "0 < n \<Longrightarrow> 2 ^ (bit_length n - 1) \<le> n"
proof (induction n rule: bit_length.induct)
  case (1 n)
  from 1(2) have bl: "bit_length n = Suc (bit_length (n div 2))"
    by (simp add: bit_length.simps [of n])
  show ?case
  proof (cases "n div 2 \<le> 0")
    case True
    then have "bit_length (n div 2) = 0" by (simp add: bit_length.simps)
    with bl 1(2) show ?thesis by simp
  next
    case False
    with 1 have ih: "2 ^ (bit_length (n div 2) - 1) \<le> n div 2" by simp
    from False have "0 < bit_length (n div 2)"
      by (simp add: bit_length.simps [of "n div 2"])
    then have "(2::int) ^ bit_length (n div 2) = 2 * 2 ^ (bit_length (n div 2) - 1)"
      by (cases "bit_length (n div 2)") simp_all
    with ih have "2 ^ bit_length (n div 2) \<le> n" by linarith
    with bl show ?thesis by simp
  qed
qed

lemma bit_length_le: 
  assumes "n < 2 ^ k"
  shows "bit_length n \<le> k"
proof (cases "0 < n")
  case False
  then show ?thesis by (simp add: bit_length.simps)
next
  case True
  show ?thesis
  proof (rule ccontr)
    assume "\<not> bit_length n \<le> k"
    then have "k \<le> bit_length n - 1" by simp
    then have "(2::int) ^ k \<le> 2 ^ (bit_length n - 1)"
      by (rule power_increasing) simp
    with bit_length_ge [OF True] assms show False by linarith
  qed
qed

lemma bit_length_mult: "bit_length (\<bar>a * b\<bar>) \<le> bit_length \<bar>a\<bar> + bit_length \<bar>b\<bar>"
proof (rule bit_length_le)
  have "\<bar>a\<bar> < 2 ^ bit_length \<bar>a\<bar>" "\<bar>b\<bar> < 2 ^ bit_length \<bar>b\<bar>"
    by (rule bit_length_less)+
  then have "\<bar>a\<bar> * \<bar>b\<bar> < 2 ^ bit_length \<bar>a\<bar> * 2 ^ bit_length \<bar>b\<bar>"
    by (intro mult_strict_mono) simp_all
  then show "\<bar>a * b\<bar> < 2 ^ (bit_length \<bar>a\<bar> + bit_length \<bar>b\<bar>)"
    by (simp add: abs_mult power_add)
qed

lemma round_half_even_between:
  "m div 2 ^ s \<le> round_half_even m s \<and> round_half_even m s \<le> m div 2 ^ s + 1"
  by (simp add: round_half_even_def Let_def)

lemma round_half_even_exact: "m mod 2 ^ s = 0 \<Longrightarrow> round_half_even m s = m div 2 ^ s"
  by (simp add: round_half_even_def Let_def)

lemma div_pow2_bounds:
  fixes m :: int
  assumes "\<bar>m\<bar> < 2 ^ (s + j)"
  shows "m div 2 ^ s < 2 ^ j" and "- (2 ^ j) \<le> m div 2 ^ s"
proof -
  let ?q = "m div 2 ^ s"
  have p: "(2::int) ^ (s + j) = 2 ^ j * 2 ^ s"
    by (simp add: power_add)
  have pos: "(0::int) < 2 ^ s" by simp
  have eq: "?q * 2 ^ s + m mod 2 ^ s = m"
    by (rule div_mult_mod_eq)
  have r: "0 \<le> m mod 2 ^ s" "m mod 2 ^ s < 2 ^ s"
    using pos by simp_all
  from assms have up: "m < 2 ^ j * 2 ^ s" and lo: "- (2 ^ j * 2 ^ s) < m"
    unfolding p by linarith+
  from eq r up have "?q * 2 ^ s < 2 ^ j * 2 ^ s" by linarith
  then show "?q < 2 ^ j"
    using pos by (simp only: mult_less_cancel_right_pos)
  from eq r lo have "- (2 ^ j * 2 ^ s) < ?q * 2 ^ s + 2 ^ s" by linarith
  then have "(- (2 ^ j)) * 2 ^ s < (?q + 1) * 2 ^ s"
    by (simp add: algebra_simps)
  then have "- (2 ^ j) < ?q + 1"
    using pos by (simp only: mult_less_cancel_right_pos)
  then show "- (2 ^ j) \<le> ?q" by linarith
qed

lemma round_half_even_bound:
  assumes "\<bar>m\<bar> < 2 ^ (s + j)"
  shows "\<bar>round_half_even m s\<bar> \<le> 2 ^ j"
  using div_pow2_bounds [OF assms] round_half_even_between [of m s]
  by linarith

lemma round_half_even_nonneg: "0 \<le> m \<Longrightarrow> 0 \<le> round_half_even m s"
proof -
  assume "0 \<le> m"
  then have "0 \<le> m div 2 ^ s"
    by (simp add: pos_imp_zdiv_nonneg_iff)
  with round_half_even_between [of m s] show ?thesis
    by linarith
qed

lemma fbound_mono: "fbound k x \<Longrightarrow> k \<le> k' \<Longrightarrow> fbound k' x"
  by (auto simp: fbound_def split: pyfloat.splits)

lemma fbound_finite: "fbound k x \<Longrightarrow> \<exists>m e. x = Finite m e"
  by (auto simp: fbound_def split: pyfloat.splits)

lemma fbound_fneg: "fbound k x \<Longrightarrow> fbound k (fneg x)"
  by (cases x) (simp_all add: fbound_def)

text \<open>Rounding raises the magnitude bound by at most one binary digit, and keeps the sign.\<close>

lemma fround_bound:
  assumes "int (bit_length \<bar>m\<bar>) + e \<le> k" and "0 \<le> k" and "k \<le> 1023"
  shows "fbound (k + 1) (fround m e)"
proof -
  define n where "n = bit_length \<bar>m\<bar>"
  define e' where "e' = max (e + int n - 53) (- 1074)"
  show ?thesis
  proof (cases "e' \<le> e")
    case True
    then have "fround m e = Finite m e"
      using assms by (simp add: fround_def Let_def e'_def n_def)
    with assms show ?thesis
      by (simp add: fbound_def)
  next
    case False
    define s where "s = nat (e' - e)"
    define m' where "m' = round_half_even m s"
    from False have s: "int s = e' - e" "0 < s"
      by (simp_all add: s_def)
    have "int n - 53 \<le> int s"
      using s by (simp add: e'_def)
    then have "n \<le> s + 53" by linarith
    then have "(2::int) ^ n \<le> 2 ^ (s + 53)"
      by (rule power_increasing) simp
    moreover have "\<bar>m\<bar> < 2 ^ n"
      unfolding n_def by (rule bit_length_less)
    ultimately have "\<bar>m\<bar> < 2 ^ (s + 53)" by linarith
    then have "\<bar>m'\<bar> \<le> 2 ^ 53"
      unfolding m'_def by (rule round_half_even_bound)
    then have "\<bar>m'\<bar> < 2 ^ 54" by simp
    then have b: "bit_length \<bar>m'\<bar> \<le> 54"
      by (rule bit_length_le)
    have "e' \<le> k - 53"
      using assms by (simp add: e'_def n_def)
    with b have le: "int (bit_length \<bar>m'\<bar>) + e' \<le> k + 1" by linarith
    have "fround m e = Finite m' e'"
      using False le assms(3)
      by (simp add: fround_def Let_def e'_def [symmetric] n_def [symmetric] s_def [symmetric]
          m'_def [symmetric])
    with le show ?thesis
      by (simp add: fbound_def)
  qed
qed

lemma fround_nonneg:
  assumes "0 \<le> m"
  shows "fnonneg (fround m e)"
proof -
  have a: "0 \<le> round_half_even m s" for s
    using assms by (rule round_half_even_nonneg)
  then have b: "\<not> round_half_even m s < 0" for s
    by (simp add: not_less)
  from assms show ?thesis
    by (simp add: fround_def Let_def fnonneg_def a b)
qed

lemma fmul_bound:
  assumes "fbound k1 x" and "fbound k2 y" and "0 \<le> k1 + k2" and "k1 + k2 \<le> 1023"
  shows "fbound (k1 + k2 + 1) (fmul x y)"
proof -
  from assms(1) obtain a e where x: "x = Finite a e" and xa: "int (bit_length \<bar>a\<bar>) + e \<le> k1"
    by (auto simp: fbound_def split: pyfloat.splits)
  from assms(2) obtain b f where y: "y = Finite b f" and yb: "int (bit_length \<bar>b\<bar>) + f \<le> k2"
    by (auto simp: fbound_def split: pyfloat.splits)
  have "int (bit_length \<bar>a * b\<bar>) + (e + f) \<le> k1 + k2"
    using bit_length_mult [of a b] xa yb by linarith
  from fround_bound [OF this assms(3,4)] show ?thesis
    by (simp add: x y)
qed

lemma fmul_nonneg:
  assumes "fnonneg x" and "fnonneg y" and "fbound k x" and "fbound k' y"
  shows "fnonneg (fmul x y)"
proof -
  from assms(3) obtain a e where x: "x = Finite a e"
    using fbound_finite by blast
  from assms(4) obtain b f where y: "y = Finite b f"
    using fbound_finite by blast
  from assms(1,2) have "0 \<le> a * b"
    by (simp add: x y fnonneg_def)
  then show ?thesis
    by (simp add: x y fround_nonneg)
qed

lemma fadd_bound:
  assumes "fbound k1 x" and "fbound k2 y" and "0 \<le> max k1 k2 + 1" and "max k1 k2 + 1 \<le> 1023"
  shows "fbound (max k1 k2 + 2) (fadd x y)"
proof -
  from assms(1) obtain a e where x: "x = Finite a e" and xa: "int (bit_length \<bar>a\<bar>) + e \<le> k1"
    by (auto simp: fbound_def split: pyfloat.splits)
  from assms(2) obtain b f where y: "y = Finite b f" and yb: "int (bit_length \<bar>b\<bar>) + f \<le> k2"
    by (auto simp: fbound_def split: pyfloat.splits)
  define g where "g = min e f"
  define K where "K = nat (max k1 k2 - g)"
  have "g \<le> max k1 k2"
    using xa yb unfolding g_def by linarith
  then have K: "int K = max k1 k2 - g"
    by (simp add: K_def)
  have "\<bar>a\<bar> * 2 ^ nat (e - g) < 2 ^ bit_length \<bar>a\<bar> * 2 ^ nat (e - g)"
    using bit_length_less [of "\<bar>a\<bar>"] by simp
  also have "\<dots> = 2 ^ (bit_length \<bar>a\<bar> + nat (e - g))"
    by (simp add: power_add)
  also have "\<dots> \<le> 2 ^ K"
    by (rule power_increasing) (use xa K in \<open>simp_all add: g_def\<close>)
  finally have A: "\<bar>a * 2 ^ nat (e - g)\<bar> < 2 ^ K"
    by (simp add: abs_mult)
  have "\<bar>b\<bar> * 2 ^ nat (f - g) < 2 ^ bit_length \<bar>b\<bar> * 2 ^ nat (f - g)"
    using bit_length_less [of "\<bar>b\<bar>"] by simp
  also have "\<dots> = 2 ^ (bit_length \<bar>b\<bar> + nat (f - g))"
    by (simp add: power_add)
  also have "\<dots> \<le> 2 ^ K"
    by (rule power_increasing) (use yb K in \<open>simp_all add: g_def\<close>)
  finally have B: "\<bar>b * 2 ^ nat (f - g)\<bar> < 2 ^ K"
    by (simp add: abs_mult)
  from A B have "\<bar>a * 2 ^ nat (e - g) + b * 2 ^ nat (f - g)\<bar> < 2 ^ Suc K"
    by simp
  then have "bit_length \<bar>a * 2 ^ nat (e - g) + b * 2 ^ nat (f - g)\<bar> \<le> Suc K"
    by (rule bit_length_le)
  with K have "int (bit_length \<bar>a * 2 ^ nat (e - g) + b * 2 ^ nat (f - g)\<bar>) + g \<le> max k1 k2 + 1"
    by linarith
  from fround_bound [OF this assms(3,4)] show ?thesis
    by (simp add: x y Let_def g_def add.commute)
qed

lemma fadd_nonneg:
  assumes "fnonneg x" and "fnonneg y" and "fbound k x" and "fbound k' y"
  shows "fnonneg (fadd x y)"
proof -
  from assms(3) obtain a e where x: "x = Finite a e"
    using fbound_finite by blast
  from assms(4) obtain b f where y: "y = Finite b f"
    using fbound_finite by blast
  from assms(1,2) have "0 \<le> a * 2 ^ nat (e - min e f) + b * 2 ^ nat (f - min e f)"
    by (simp add: x y fnonneg_def)
  then show ?thesis
    by (simp add: x y Let_def fround_nonneg)
qed

lemma int_to_float_bound:
  assumes "\<bar>c\<bar> < 2 ^ k" and "k \<le> 1023"
  shows "\<exists>x. int_to_float c = Inr x \<and> fbound (int k + 1) x \<and> (0 \<le> c \<longrightarrow> fnonneg x)"
proof -
  have "bit_length \<bar>c\<bar> \<le> k"
    using assms(1) by (rule bit_length_le)
  then have "int (bit_length \<bar>c\<bar>) + 0 \<le> int k" by simp
  from fround_bound [OF this] assms(2) have b: "fbound (int k + 1) (fround c 0)"
    by simp
  then obtain m e where f: "fround c 0 = Finite m e"
    using fbound_finite by blast
  with b fround_nonneg [of c 0] show ?thesis
    by (auto simp: int_to_float_def)
qed

lemma float_to_int_nonneg:
  assumes "fnonneg x" and "float_to_int x = Inr n"
  shows "0 \<le> n"
  using assms
  by (cases x) (auto simp: fnonneg_def sgn_if pos_imp_zdiv_nonneg_iff split: if_splits)

section \<open>The history synthesizer\<close>

lemma int_to_float_one: "int_to_float 1 = Inr (Finite 1 0)"
  by code_simp

lemma fbound_one: "fbound 1 (Finite 1 0)"
  unfolding fbound_def by code_simp

lemma fbound_lit_0_05: "fbound (- 4) lit_0_05"
proof -
  have "bit_length \<bar>3602879701896397\<bar> \<le> 52"
    by (rule bit_length_le) simp
  then show ?thesis
    by (simp add: fbound_def lit_0_05_def)
qed

lemma fbound_lit_0_4: "fbound (- 1) lit_0_4"
proof -
  have "bit_length \<bar>3602879701896397\<bar> \<le> 52"
    by (rule bit_length_le) simp
  then show ?thesis
    by (simp add: fbound_def lit_0_4_def)
qed

lemma fbound_lit_0_8: "fbound 0 lit_0_8"
proof -
  have "bit_length \<bar>3602879701896397\<bar> \<le> 52"
    by (rule bit_length_le) simp
  then show ?thesis
    by (simp add: fbound_def lit_0_8_def)
qed

lemma growth_factor_bound:
  assumes "i < 2 ^ 17"
  shows "\<exists>g. growth_factor i = Inr g \<and> fbound 17 g"
proof -
  from assms have "\<bar>int i\<bar> < 2 ^ 17"
    by simp
  from int_to_float_bound [OF this]
  obtain x where x: "int_to_float (int i) = Inr x" "fbound 18 x"
    by auto
  have "fbound (18 + (- 4) + 1) (fmul x lit_0_05)"
    by (rule fmul_bound [OF x(2) fbound_lit_0_05]) simp_all
  then have "fbound 15 (fneg (fmul x lit_0_05))"
    by (simp add: fbound_fneg)
  from fadd_bound [OF fbound_one this]
  have "fbound 17 (fsub (Finite 1 0) (fmul x lit_0_05))"
    by (simp add: fsub_def)
  with x(1) show ?thesis
    by (simp add: growth_factor_def int_to_float_one)
qed

lemma growth_factor_12: "growth_factor 12 = Inr (Finite 3602879701896396 (- 53))"
  by code_simp

lemma fbound_random: "fbound 0 (Finite (uint (r :: 53 word)) (- 53))"
proof -
  have "uint r < 2 ^ 53"
    using uint_lt2p [of r] by simp
  then have "bit_length \<bar>uint r\<bar> \<le> 53"
    by (intro bit_length_le) simp
  then show ?thesis
    by (simp add: fbound_def)
qed

lemma variation_bound: "fbound 3 (variation_of (Finite (uint (r :: 53 word)) (- 53)))"
proof -
  have "fbound 0 lit_0_4"
    using fbound_lit_0_4 by (rule fbound_mono) simp
  from fmul_bound [OF fbound_random this]
  have "fbound 1 (fmul (Finite (uint r) (- 53)) lit_0_4)"
    by simp
  from fadd_bound [OF fbound_lit_0_8 this] show ?thesis
    by (simp add: variation_of_def)
qed

lemma variation_nonneg: "fnonneg (variation_of (Finite (uint (r :: 53 word)) (- 53)))"
proof -
  have a: "fnonneg (Finite (uint r) (- 53))" "fnonneg lit_0_4" "fnonneg lit_0_8"
    by (simp_all add: fnonneg_def lit_0_4_def lit_0_8_def)
  have "fbound 0 lit_0_4"
    using fbound_lit_0_4 by (rule fbound_mono) simp
  from fmul_bound [OF fbound_random this]
  have b: "fbound 1 (fmul (Finite (uint r) (- 53)) lit_0_4)"
    by simp
  have "fnonneg (fmul (Finite (uint r) (- 53)) lit_0_4)"
    using a(1,2) fbound_random fbound_lit_0_4 by (rule fmul_nonneg)
  with a(3) show ?thesis
    unfolding variation_of_def using fbound_lit_0_8 b by (rule fadd_nonneg)
qed

lemma history_value_ok:
  assumes "\<bar>c\<bar> < 2 ^ 1000" and "fbound 17 g" and "fbound 3 v"
  shows "\<exists>n. history_value c g v = Inr n"
proof -
  from int_to_float_bound [OF assms(1)]
  obtain x where x: "int_to_float c = Inr x" "fbound 1001 x"
    by auto
  from fmul_bound [OF x(2) assms(2)] have "fbound 1019 (fmul x g)"
    by simp
  from fmul_bound [OF this assms(3)] have "fbound 1023 (fmul (fmul x g) v)"
    by simp
  then obtain m e where "fmul (fmul x g) v = Finite m e"
    using fbound_finite by blast
  with x(1) show ?thesis
    by (simp add: history_value_def)
qed

lemma fmul_sign:
  assumes "fnonneg x" and "fnonneg y"
  shows "fmul x y = NaN \<or> fnonneg (fmul x y)"
proof (cases x)
  case (Finite a e)
  with assms show ?thesis
    by (cases y) (auto simp: fnonneg_def [of "Finite a e"] fnonneg_def [of "Finite _ _"]
        fnonneg_def [of PosInf] fnonneg_def [of NegInf] fnonneg_def [of NaN] intro: fround_nonneg)
next
  case PosInf
  with assms show ?thesis
    by (cases y) (auto simp: fnonneg_def)
next
  case NegInf
  with assms show ?thesis by (simp add: fnonneg_def)
next
  case NaN
  with assms show ?thesis by (simp add: fnonneg_def)
qed

lemma float_to_int_sign:
  assumes "x = NaN \<or> fnonneg x" and "float_to_int x = Inr n"
  shows "0 \<le> n"
  using assms float_to_int_nonneg [of x n] by auto

lemma history_value_nonneg:
  assumes "0 \<le> c" and "fnonneg g" and "fnonneg v" and "history_value c g v = Inr n"
  shows "0 \<le> n"
proof -
  from assms(4) obtain x where x: "int_to_float c = Inr x"
    and n: "float_to_int (fmul (fmul x g) v) = Inr n"
    by (cases "int_to_float c") (simp_all add: history_value_def)
  from x have "x = fround c 0"
    by (simp add: int_to_float_def split: pyfloat.splits)
  with assms(1) have "fnonneg x"
    by (simp add: fround_nonneg)
  from fmul_sign [OF this assms(2)] have "fmul (fmul x g) v = NaN \<or> fnonneg (fmul (fmul x g) v)"
  proof
    assume "fmul x g = NaN"
    then show ?thesis by simp
  next
    assume "fnonneg (fmul x g)"
    then show ?thesis using assms(3) by (rule fmul_sign)
  qed
  then show ?thesis using n by (rule float_to_int_sign)
qed

lemma history_step_result:
  assumes "history_step channel_data i h w = (Inr h1, w1)"
  shows "w1 = w\<lparr>ticks := Suc (ticks w), draws := Suc (draws w)\<rparr> \<and>
         (\<exists>ps pv pn.
            h1 = \<lparr>subscriber_history = subscriber_history h @ [ps],
                  view_history = view_history h @ [pv],
                  video_history = video_history h @ [pn]\<rparr> \<and>
            step_points channel_data (clock w (ticks w)) (rng w (draws w)) i ps pv pn)"
  using assms
  by (auto simp: history_step_def datetime_now_def random_random_def days_before_def
      bind_exc_def append_point_def step_points_def Let_def
      split: sum.splits if_splits)

lemma history_step_ok:
  assumes "\<bar>subscriber_count channel_data\<bar> < 2 ^ 1000"
    and "\<bar>view_count channel_data\<bar> < 2 ^ 1000"
    and "\<bar>video_count channel_data\<bar> < 2 ^ 1000"
    and "i < 2 ^ 17" and "30 * int i < clock w (ticks w)"
  shows "\<exists>h1 w1. history_step channel_data i h w = (Inr h1, w1)"
proof -
  from growth_factor_bound [OF assms(4)]
  obtain g where g: "growth_factor i = Inr g" "fbound 17 g"
    by auto
  let ?v = "variation_of (Finite (uint (rng w (draws w))) (- 53))"
  from history_value_ok [OF assms(1) g(2) variation_bound]
  obtain s where s: "history_value (subscriber_count channel_data) g ?v = Inr s" by auto
  from history_value_ok [OF assms(2) g(2) variation_bound]
  obtain v where v: "history_value (view_count channel_data) g ?v = Inr v" by auto
  from history_value_ok [OF assms(3) g(2) variation_bound]
  obtain n where n: "history_value (video_count channel_data) g ?v = Inr n" by auto
  from assms(4) have "30 * int i \<le> 999999999" by simp
  with assms(5) g(1) s v n show ?thesis
    by (simp add: history_step_def datetime_now_def random_random_def days_before_def Let_def)
qed

lemma history_loop_result:
  assumes "history_loop channel_data is h w = (Inr h', w')"
  shows "w' = w\<lparr>ticks := ticks w + length is, draws := draws w + length is\<rparr> \<and>
         (\<exists>ss vs ns.
            h' = \<lparr>subscriber_history = subscriber_history h @ ss,
                  view_history = view_history h @ vs,
                  video_history = video_history h @ ns\<rparr> \<and>
            length ss = length is \<and> length vs = length is \<and> length ns = length is \<and>
            (\<forall>j<length is.
               step_points channel_data (clock w (ticks w + j)) (rng w (draws w + j)) (is ! j)
                 (ss ! j) (vs ! j) (ns ! j)))"
  using assms
proof (induction "is" arbitrary: h w)
  case Nil
  then show ?case by simp
next
  case (Cons i rest)
  from Cons.prems obtain h1 w1 where st: "history_step channel_data i h w = (Inr h1, w1)"
    and lp: "history_loop channel_data rest h1 w1 = (Inr h', w')"
    by (auto split: prod.splits sum.splits)
  from history_step_result [OF st] obtain ps pv pn
    where w1: "w1 = w\<lparr>ticks := Suc (ticks w), draws := Suc (draws w)\<rparr>"
      and h1: "h1 = \<lparr>subscriber_history = subscriber_history h @ [ps],
                      view_history = view_history h @ [pv],
                      video_history = video_history h @ [pn]\<rparr>"
      and sp: "step_points channel_data (clock w (ticks w)) (rng w (draws w)) i ps pv pn"
    by blast
  from Cons.IH [OF lp] obtain ss vs ns
    where w': "w' = w1\<lparr>ticks := ticks w1 + length rest, draws := draws w1 + length rest\<rparr>"
      and h': "h' = \<lparr>subscriber_history = subscriber_history h1 @ ss,
                      view_history = view_history h1 @ vs,
                      video_history = video_history h1 @ ns\<rparr>"
      and len: "length ss = length rest" "length vs = length rest" "length ns = length rest"
      and pts: "\<forall>j<length rest.
                 step_points channel_data (clock w1 (ticks w1 + j)) (rng w1 (draws w1 + j))
                   (rest ! j) (ss ! j) (vs ! j) (ns ! j)"
    by blast
  have a: "w' = w\<lparr>ticks := ticks w + length (i # rest), draws := draws w + length (i # rest)\<rparr>"
    by (simp add: w' w1)
  have b: "h' = \<lparr>subscriber_history = subscriber_history h @ (ps # ss),
                  view_history = view_history h @ (pv # vs),
                  video_history = video_history h @ (pn # ns)\<rparr>"
    by (simp add: h' h1)
  have c: "step_points channel_data (clock w (ticks w + j)) (rng w (draws w + j)) ((i # rest) ! j)
             ((ps # ss) ! j) ((pv # vs) ! j) ((pn # ns) ! j)"
    if "j < length (i # rest)" for j
  proof (cases j)
    case 0
    with sp show ?thesis by simp
  next
    case (Suc j')
    with that have "j' < length rest" by simp
    with pts have "step_points channel_data (clock w1 (ticks w1 + j')) (rng w1 (draws w1 + j'))
        (rest ! j') (ss ! j') (vs ! j') (ns ! j')"
      by blast
    then show ?thesis
      by (simp add: Suc w1)
  qed
  show ?case
    using a b c len
    by (intro conjI exI [of _ "ps # ss"] exI [of _ "pv # vs"] exI [of _ "pn # ns"]) simp_all
qed

lemma history_loop_ok:
  assumes "\<bar>subscriber_count channel_data\<bar> < 2 ^ 1000"
    and "\<bar>view_count channel_data\<bar> < 2 ^ 1000"
    and "\<bar>video_count channel_data\<bar> < 2 ^ 1000"
    and "\<forall>i\<in>set is. i < 2 ^ 17 \<and> (\<forall>k. 30 * int i < clock w k)"
  shows "\<exists>h' w'. history_loop channel_data is h w = (Inr h', w')"
  using assms(4)
proof (induction "is" arbitrary: h w)
  case Nil
  then show ?case by simp
next
  case (Cons i rest)
  then have i: "i < 2 ^ 17" "30 * int i < clock w (ticks w)"
    by simp_all
  from history_step_ok [OF assms(1-3) i]
  obtain h1 w1 where st: "history_step channel_data i h w = (Inr h1, w1)"
    by blast
  from history_step_result [OF st] have "clock w1 = clock w"
    by simp
  with Cons.prems have "\<forall>i\<in>set rest. i < 2 ^ 17 \<and> (\<forall>k. 30 * int i < clock w1 k)"
    by simp
  from Cons.IH [OF this] obtain h' w' where "history_loop channel_data rest h1 w1 = (Inr h', w')"
    by blast
  with st show ?case by simp
qed

lemma length_range_down [simp]: "length (range_down months) = months"
  by (simp add: range_down_def)

lemma range_down_nth:
  assumes "j < months"
  shows "range_down months ! j = months - j"
proof -
  have "rev [1..<Suc months] ! j = [1..<Suc months] ! (length [1..<Suc months] - Suc j)"
    using assms by (intro rev_nth) simp
  also have "length [1..<Suc months] - Suc j = months - Suc j"
    by simp
  also have "[1..<Suc months] ! (months - Suc j) = 1 + (months - Suc j)"
    using assms by (intro nth_upt) linarith
  finally have "rev [1..<Suc months] ! j = 1 + (months - Suc j)" .
  then show ?thesis
    unfolding range_down_def using assms by linarith
qed

lemma set_range_down: "set (range_down months) = {1..months}"
  by (auto simp: range_down_def)

lemma historical_series_result:
  assumes "historical_series months channel_data w = (Inr h, w')"
  shows "w' = w\<lparr>ticks := ticks w + months, draws := draws w + months\<rparr> \<and>
         length (subscriber_history h) = months \<and> length (view_history h) = months \<and>
         length (video_history h) = months \<and>
         (\<forall>j<months.
            step_points channel_data (clock w (ticks w + j)) (rng w (draws w + j)) (months - j)
              (subscriber_history h ! j) (view_history h ! j) (video_history h ! j))"
proof -
  from assms have "history_loop channel_data (range_down months) no_history w = (Inr h, w')"
    by (simp add: historical_series_def)
  from history_loop_result [OF this] show ?thesis
    by (auto simp: no_history_def range_down_nth)
qed

lemma historical_series_ok:
  assumes "\<bar>subscriber_count channel_data\<bar> < 2 ^ 1000"
    and "\<bar>view_count channel_data\<bar> < 2 ^ 1000"
    and "\<bar>video_count channel_data\<bar> < 2 ^ 1000"
    and "months < 2 ^ 17" and "\<forall>k. 30 * int months < clock w k"
  shows "\<exists>h w'. historical_series months channel_data w = (Inr h, w')"
proof -
  have "\<forall>i\<in>set (range_down months). i < 2 ^ 17 \<and> (\<forall>k. 30 * int i < clock w k)"
  proof (intro ballI conjI allI)
    fix i k
    assume "i \<in> set (range_down months)"
    then have i: "i \<le> months" by (simp add: set_range_down)
    with assms(4) show "i < 2 ^ 17" by simp
    from i have "30 * int i \<le> 30 * int months" by simp
    with assms(5) show "30 * int i < clock w k"
      by (meson le_less_trans)
  qed
  from history_loop_ok [OF assms(1-3) this] show ?thesis
    by (simp add: historical_series_def)
qed

lemma example_series: "fst (generate_historical_data example_channel (world_of api_empty)) = Inr example_history"
  by code_simp

lemma short_series: "fst (historical_series 2 example_channel (world_of api_empty)) = Inr short_history"
  by code_simp

text \<open>
  C1, as amended. Each iteration reads the random source once: a call that succeeds has
  made as many draws as there are points, and at every index the subscriber, view and
  video values are computed from the same growth factor and the same variation factor
  \<open>0.8 + r * 0.4\<close>, \<open>r\<close> being the one number drawn in that iteration.
\<close>

theorem one_draw_shared_by_metrics:
  assumes "fst (historical_series months channel_data w) = Inr h"
  shows "draws (snd (historical_series months channel_data w)) = draws w + months \<and>
         (\<forall>j<months. \<exists>g.
            growth_factor (months - j) = Inr g \<and>
            history_value (subscriber_count channel_data) g
              (variation_of (Finite (uint (rng w (draws w + j))) (- 53)))
              = Inr (hp_value (subscriber_history h ! j)) \<and>
            history_value (view_count channel_data) g
              (variation_of (Finite (uint (rng w (draws w + j))) (- 53)))
              = Inr (hp_value (view_history h ! j)) \<and>
            history_value (video_count channel_data) g
              (variation_of (Finite (uint (rng w (draws w + j))) (- 53)))
              = Inr (hp_value (video_history h ! j)))"
proof -
  from assms have "historical_series months channel_data w =
      (Inr h, snd (historical_series months channel_data w))"
    by (metis prod.collapse)
  from historical_series_result [OF this] show ?thesis
    by (simp add: step_points_def)
qed

theorem one_draw_shared_by_metrics_witness:
  "fst (historical_series 2 example_channel (world_of api_empty)) = Inr short_history \<and>
   draws (snd (historical_series 2 example_channel (world_of api_empty))) = 2"
proof -
  have d: "draws (world_of api_empty) = 0"
    by (simp add: world_of_def)
  from one_draw_shared_by_metrics [OF short_series]
  have "draws (snd (historical_series 2 example_channel (world_of api_empty))) =
      draws (world_of api_empty) + 2"
    by (rule conjunct1)
  with short_series show ?thesis
    by (simp add: d)
qed

text \<open>
  C1, as stated, fails: with a random source that yields 0 and then the largest number,
  the source's synthesizer and the one with independent draws differ on the view
  history (7600 against 11400).
\<close>

theorem independent_draws_counterexample:
  "fst (historical_series 1 example_channel ((world_of api_empty)\<lparr>rng := low_then_high\<rparr>)) =
     Inr \<lparr>subscriber_history = [\<lparr>hp_date = 738970, hp_value = 0\<rparr>],
          view_history = [\<lparr>hp_date = 738970, hp_value = 7600\<rparr>],
          video_history = [\<lparr>hp_date = 738970, hp_value = 7\<rparr>]\<rparr> \<and>
   fst (independent_series 1 example_channel ((world_of api_empty)\<lparr>rng := low_then_high\<rparr>)) =
     Inr \<lparr>subscriber_history = [\<lparr>hp_date = 738970, hp_value = 0\<rparr>],
          view_history = [\<lparr>hp_date = 738970, hp_value = 11400\<rparr>],
          video_history = [\<lparr>hp_date = 738970, hp_value = 11\<rparr>]\<rparr>"
  by code_simp

lemma growth_factor_table:
  "growth_factor 1 = Inr (Finite 8556839292003942 (- 53))"
  "growth_factor 2 = Inr (Finite 8106479329266893 (- 53))"
  "growth_factor 3 = Inr (Finite 7656119366529843 (- 53))"
  "growth_factor 4 = Inr (Finite 7205759403792794 (- 53))"
  "growth_factor 5 = Inr (Finite 6755399441055744 (- 53))"
  "growth_factor 6 = Inr (Finite 6305039478318694 (- 53))"
  "growth_factor 7 = Inr (Finite 5854679515581644 (- 53))"
  "growth_factor 8 = Inr (Finite 5404319552844595 (- 53))"
  "growth_factor 9 = Inr (Finite 4953959590107546 (- 53))"
  "growth_factor 10 = Inr (Finite 4503599627370496 (- 53))"
  "growth_factor 11 = Inr (Finite 4053239664633446 (- 53))"
  "growth_factor 12 = Inr (Finite 3602879701896396 (- 53))"
  by code_simp+

lemma growth_factor_shipped:
  assumes "1 \<le> i" and "i \<le> 12" and "growth_factor i = Inr g"
  shows "fnonneg g"
proof -
  from assms(1,2) have "i = 12 \<or> i = 11 \<or> i = 10 \<or> i = 9 \<or> i = 8 \<or> i = 7 \<or> i = 6 \<or> i = 5
      \<or> i = 4 \<or> i = 3 \<or> i = 2 \<or> i = 1"
    by arith
  moreover have "growth_factor (Suc 0) = Inr (Finite 8556839292003942 (- 53))"
    using growth_factor_table(1) by simp
  ultimately show ?thesis
    using assms(3) by (elim disjE) (auto simp: growth_factor_table fnonneg_def)
qed

lemma step_points_nonneg:
  assumes "step_points channel_data today r i ps pv pn" and "1 \<le> i" and "i \<le> 12"
    and "0 \<le> subscriber_count channel_data" and "0 \<le> view_count channel_data"
    and "0 \<le> video_count channel_data"
  shows "0 \<le> hp_value ps \<and> 0 \<le> hp_value pv \<and> 0 \<le> hp_value pn"
proof -
  let ?v = "variation_of (Finite (uint r) (- 53))"
  from assms(1) obtain g where g: "growth_factor i = Inr g"
    and s: "history_value (subscriber_count channel_data) g ?v = Inr (hp_value ps)"
    and v: "history_value (view_count channel_data) g ?v = Inr (hp_value pv)"
    and n: "history_value (video_count channel_data) g ?v = Inr (hp_value pn)"
    by (auto simp: step_points_def)
  from assms(2,3) g have pos: "fnonneg g"
    by (rule growth_factor_shipped)
  show ?thesis
    using history_value_nonneg [OF assms(4) pos variation_nonneg s]
      history_value_nonneg [OF assms(5) pos variation_nonneg v]
      history_value_nonneg [OF assms(6) pos variation_nonneg n]
    by simp
qed

text \<open>
  C10. With \<open>HISTORICAL_MONTHS = 12\<close> and non-negative current totals, every value of the
  three histories that \<open>generate_historical_data\<close> returns is non-negative; and it does
  return them when the totals are below \<open>2 ^ 1000\<close> and the clock shows a day after the
  360th of the calendar.
\<close>

theorem shipped_history_is_nonnegative:
  assumes "0 \<le> subscriber_count channel_data" and "0 \<le> view_count channel_data"
    and "0 \<le> video_count channel_data"
  shows "(\<forall>h. fst (generate_historical_data channel_data w) = Inr h \<longrightarrow>
            (\<forall>p\<in>set (subscriber_history h). 0 \<le> hp_value p) \<and>
            (\<forall>p\<in>set (view_history h). 0 \<le> hp_value p) \<and>
            (\<forall>p\<in>set (video_history h). 0 \<le> hp_value p)) \<and>
         (subscriber_count channel_data < 2 ^ 1000 \<and> view_count channel_data < 2 ^ 1000 \<and>
          video_count channel_data < 2 ^ 1000 \<and> (\<forall>k. 360 < clock w k) \<longrightarrow>
            (\<exists>h. fst (generate_historical_data channel_data w) = Inr h))"
proof (intro conjI allI impI)
  fix h
  assume "fst (generate_historical_data channel_data w) = Inr h"
  then have "historical_series 12 channel_data w =
      (Inr h, snd (historical_series 12 channel_data w))"
    by (metis generate_historical_data_def HISTORICAL_MONTHS_def prod.collapse)
  from historical_series_result [OF this]
  have len: "length (subscriber_history h) = 12" "length (view_history h) = 12"
      "length (video_history h) = 12"
    and pts: "\<And>j. j < 12 \<Longrightarrow> step_points channel_data (clock w (ticks w + j)) (rng w (draws w + j))
        (12 - j) (subscriber_history h ! j) (view_history h ! j) (video_history h ! j)"
    by simp_all
  have nn: "0 \<le> hp_value (subscriber_history h ! j) \<and> 0 \<le> hp_value (view_history h ! j) \<and>
      0 \<le> hp_value (video_history h ! j)" if "j < 12" for j
  proof -
    from that have "1 \<le> 12 - j" "12 - j \<le> 12"
      by linarith+
    from step_points_nonneg [OF pts [OF that] this assms] show ?thesis .
  qed
  show "\<forall>p\<in>set (subscriber_history h). 0 \<le> hp_value p"
    using nn len(1) by (auto simp: in_set_conv_nth)
  show "\<forall>p\<in>set (view_history h). 0 \<le> hp_value p"
    using nn len(2) by (auto simp: in_set_conv_nth)
  show "\<forall>p\<in>set (video_history h). 0 \<le> hp_value p"
    using nn len(3) by (auto simp: in_set_conv_nth)
next
  assume b: "subscriber_count channel_data < 2 ^ 1000 \<and> view_count channel_data < 2 ^ 1000 \<and>
      video_count channel_data < 2 ^ 1000 \<and> (\<forall>k. 360 < clock w k)"
  with assms have "\<bar>subscriber_count channel_data\<bar> < 2 ^ 1000"
    "\<bar>view_count channel_data\<bar> < 2 ^ 1000" "\<bar>video_count channel_data\<bar> < 2 ^ 1000"
    by simp_all
  moreover have "(12::nat) < 2 ^ 17" by simp
  moreover from b have "\<forall>k. 30 * int 12 < clock w k" by simp
  ultimately have "\<exists>h w'. historical_series 12 channel_data w = (Inr h, w')"
    by (rule historical_series_ok)
  then show "\<exists>h. fst (generate_historical_data channel_data w) = Inr h"
    by (auto simp: generate_historical_data_def HISTORICAL_MONTHS_def)
qed

theorem shipped_history_is_nonnegative_witness:
  "fst (generate_historical_data example_channel (world_of api_empty)) = Inr example_history \<and>
   0 \<le> hp_value \<lparr>hp_date = 738640, hp_value = 3999\<rparr>"
proof -
  have c: "0 \<le> subscriber_count example_channel" "0 \<le> view_count example_channel"
    "0 \<le> video_count example_channel"
    by (simp_all add: example_channel_def)
  from shipped_history_is_nonnegative [OF c, of "world_of api_empty"] example_series
  have "\<forall>p\<in>set (view_history example_history). 0 \<le> hp_value p"
    by blast
  then have "0 \<le> hp_value \<lparr>hp_date = 738640, hp_value = 3999\<rparr>"
    by (simp add: example_history_def)
  with example_series show ?thesis
    by simp
qed







section \<open>The aggregator\<close>

lemma collapse_result: "fst p = r \<Longrightarrow> p = (r, snd p)"
  by (cases p) simp

lemma example_resolution_fails:
  "fst (get_channel_info ''@a'' (world_of api_empty)) =
     Inl (ValueError (''Error fetching channel info: '' @ not_found_message ''a''))"
  by code_simp

lemma example_fetch_fails:
  "fst (get_channel_videos (JStr ''UC1'') 50
          (snd (get_channel_info ''@a'' (world_of api_no_uploads)))) =
     Inl (ValueError ''Error fetching videos: playlistNotFound'')"
  by code_simp

lemma example_resolution_no_uploads:
  "fst (get_channel_info ''@a'' (world_of api_no_uploads)) = Inr example_channel"
  by code_simp

lemma example_stats_value:
  "fst (get_comprehensive_stats ''@a'' (world_of api_found)) = Inr example_stats"
  by code_simp

text \<open>
  C5, as amended. A failure of the channel resolution or of the video fetch reaches the
  caller of \<open>get_comprehensive_stats\<close> as a \<open>ValueError\<close> whose message is the message of
  that failure after the prefix \<open>Error getting comprehensive stats: \<close>, and no bundle is
  returned. When both succeed, the counts of the channel are below \<open>2 ^ 1000\<close> in
  magnitude and the clock shows a day after the 360th of the calendar, the bundle with
  the channel, the videos and the three histories is returned.
\<close>

theorem stats_all_or_nothing:
  "(\<forall>e w1. get_channel_info ident w = (Inl e, w1) \<longrightarrow>
      get_comprehensive_stats ident w =
        (Inl (ValueError (''Error getting comprehensive stats: '' @ str_exc e)), w1)) \<and>
   (\<forall>c w1 e w2. get_channel_info ident w = (Inr c, w1) \<and>
      get_channel_videos (ch_id c) 50 w1 = (Inl e, w2) \<longrightarrow>
      get_comprehensive_stats ident w =
        (Inl (ValueError (''Error getting comprehensive stats: '' @ str_exc e)), w2)) \<and>
   (\<forall>c w1 vs w2. get_channel_info ident w = (Inr c, w1) \<and>
      get_channel_videos (ch_id c) 50 w1 = (Inr vs, w2) \<and>
      \<bar>subscriber_count c\<bar> < 2 ^ 1000 \<and> \<bar>view_count c\<bar> < 2 ^ 1000 \<and>
      \<bar>video_count c\<bar> < 2 ^ 1000 \<and> (\<forall>k. 360 < clock w2 k) \<longrightarrow>
      (\<exists>h w3. generate_historical_data c w2 = (Inr h, w3) \<and>
         get_comprehensive_stats ident w =
           (Inr \<lparr>subscriber_history = subscriber_history h, view_history = view_history h,
                 video_history = video_history h, st_channel = c, st_videos = vs\<rparr>, w3)))"
proof (intro conjI allI impI)
  fix e w1
  assume "get_channel_info ident w = (Inl e, w1)"
  then show "get_comprehensive_stats ident w =
      (Inl (ValueError (''Error getting comprehensive stats: '' @ str_exc e)), w1)"
    by (simp add: get_comprehensive_stats_def stats_handler_def)
next
  fix c w1 e w2
  assume "get_channel_info ident w = (Inr c, w1) \<and>
      get_channel_videos (ch_id c) 50 w1 = (Inl e, w2)"
  then show "get_comprehensive_stats ident w =
      (Inl (ValueError (''Error getting comprehensive stats: '' @ str_exc e)), w2)"
    by (simp add: get_comprehensive_stats_def stats_handler_def)
next
  fix c w1 vs w2
  assume a: "get_channel_info ident w = (Inr c, w1) \<and>
      get_channel_videos (ch_id c) 50 w1 = (Inr vs, w2) \<and>
      \<bar>subscriber_count c\<bar> < 2 ^ 1000 \<and> \<bar>view_count c\<bar> < 2 ^ 1000 \<and>
      \<bar>video_count c\<bar> < 2 ^ 1000 \<and> (\<forall>k. 360 < clock w2 k)"
  then have b: "\<bar>subscriber_count c\<bar> < 2 ^ 1000" "\<bar>view_count c\<bar> < 2 ^ 1000"
    "\<bar>video_count c\<bar> < 2 ^ 1000"
    by simp_all
  have m: "(12::nat) < 2 ^ 17" by simp
  from a have k: "\<forall>k. 30 * int 12 < clock w2 k" by simp
  from historical_series_ok [OF b m k]
  obtain h w3 where "generate_historical_data c w2 = (Inr h, w3)"
    by (auto simp: generate_historical_data_def HISTORICAL_MONTHS_def)
  with a show "\<exists>h w3. generate_historical_data c w2 = (Inr h, w3) \<and>
      get_comprehensive_stats ident w =
        (Inr \<lparr>subscriber_history = subscriber_history h, view_history = view_history h,
              video_history = video_history h, st_channel = c, st_videos = vs\<rparr>, w3)"
    by (simp add: get_comprehensive_stats_def)
qed

theorem stats_all_or_nothing_witness:
  "fst (get_comprehensive_stats ''@a'' (world_of api_empty)) =
     Inl (ValueError (''Error getting comprehensive stats: Error fetching channel info: ''
            @ not_found_message ''a'')) \<and>
   fst (get_comprehensive_stats ''@a'' (world_of api_no_uploads)) =
     Inl (ValueError ''Error getting comprehensive stats: Error fetching videos: playlistNotFound'') \<and>
   fst (get_comprehensive_stats ''@a'' (world_of api_found)) = Inr example_stats"
proof (intro conjI)
  note t = stats_all_or_nothing [of "''@a''"]
  from t [of "world_of api_empty"] collapse_result [OF example_resolution_fails]
  have "get_comprehensive_stats ''@a'' (world_of api_empty) =
      (Inl (ValueError (''Error getting comprehensive stats: '' @
         str_exc (ValueError (''Error fetching channel info: '' @ not_found_message ''a'')))),
       snd (get_channel_info ''@a'' (world_of api_empty)))"
    by blast
  then show "fst (get_comprehensive_stats ''@a'' (world_of api_empty)) =
      Inl (ValueError (''Error getting comprehensive stats: Error fetching channel info: ''
            @ not_found_message ''a''))"
    by simp
next
  note t = stats_all_or_nothing [of "''@a''" "world_of api_no_uploads"]
  let ?w1 = "snd (get_channel_info ''@a'' (world_of api_no_uploads))"
  have c: "ch_id example_channel = JStr ''UC1''"
    by (simp add: example_channel_def)
  from t collapse_result [OF example_resolution_no_uploads]
    collapse_result [OF example_fetch_fails] c
  have "get_comprehensive_stats ''@a'' (world_of api_no_uploads) =
      (Inl (ValueError (''Error getting comprehensive stats: '' @
         str_exc (ValueError ''Error fetching videos: playlistNotFound''))),
       snd (get_channel_videos (JStr ''UC1'') 50 ?w1))"
    by metis
  then show "fst (get_comprehensive_stats ''@a'' (world_of api_no_uploads)) =
      Inl (ValueError ''Error getting comprehensive stats: Error fetching videos: playlistNotFound'')"
    by simp
next
  let ?w = "world_of api_found"
  let ?w1 = "?w\<lparr>calls := calls ?w @ [ChannelsList_id channel_parts (JStr (strip_at ''@a''))]\<rparr>"
  let ?w2 = "?w1\<lparr>calls := calls ?w1 @ [ChannelsList_id ''contentDetails'' (JStr ''UC1''),
      PlaylistItemsList ''snippet,contentDetails'' (JStr ''UU1'') 50]\<rparr>"
  have r: "get_channel_info ''@a'' ?w = (Inr example_channel, ?w1)"
    by (rule resolve_by_id [where kvs = "[(''items'', JArr [example_record])]" and rest = "[]"
          and item = example_record])
      (simp_all add: world_of_def api_found_def channel_parts_def strip_at_example
        format_example_record)
  have v: "get_channel_videos (ch_id example_channel) 50 ?w1 = (Inr [], ?w2)"
    unfolding example_channel_def channel.simps
    by (rule no_uploads_no_videos [where channel_response = example_uploads
          and kvs = "[(''items'', JArr [])]"])
      (simp_all add: world_of_def api_found_def channel_parts_def strip_at_example
        uploads_playlist_example)
  have b: "\<bar>subscriber_count example_channel\<bar> < 2 ^ 1000"
    "\<bar>view_count example_channel\<bar> < 2 ^ 1000" "\<bar>video_count example_channel\<bar> < 2 ^ 1000"
    by (simp_all add: example_channel_def)
  have k: "\<forall>k. 360 < clock ?w2 k"
    by (simp add: world_of_def)
  note t = stats_all_or_nothing [of "''@a''" ?w, THEN conjunct2, THEN conjunct2, rule_format,
      of example_channel ?w1 "[]" ?w2]
  have "\<exists>h w3. generate_historical_data example_channel ?w2 = (Inr h, w3) \<and>
      get_comprehensive_stats ''@a'' ?w =
        (Inr \<lparr>subscriber_history = subscriber_history h, view_history = view_history h,
              video_history = video_history h, st_channel = example_channel, st_videos = []\<rparr>, w3)"
    by (rule t) (intro conjI r v b k)
  then obtain h w3 where "generate_historical_data example_channel ?w2 = (Inr h, w3)"
    and "get_comprehensive_stats ''@a'' ?w =
      (Inr \<lparr>subscriber_history = subscriber_history h, view_history = view_history h,
            video_history = video_history h, st_channel = example_channel, st_videos = []\<rparr>, w3)"
    by (elim exE conjE)
  with example_stats_value
  show "fst (get_comprehensive_stats ''@a'' (world_of api_found)) = Inr example_stats"
    by simp
qed

text \<open>
  C5, as stated, fails: the failure of the resolution reaches the caller under another,
  longer message.
\<close>

theorem stats_verbatim_counterexample:
  "fst (get_channel_info ''@a'' (world_of api_empty)) =
     Inl (ValueError (''Error fetching channel info: '' @ not_found_message ''a'')) \<and>
   fst (get_comprehensive_stats ''@a'' (world_of api_empty)) =
     Inl (ValueError (''Error getting comprehensive stats: Error fetching channel info: ''
            @ not_found_message ''a''))"
  by code_simp

section \<open>Floating point: rounding error\<close>

lemma fval_Finite: "fval (Finite m e) = of_int m * 2 powr of_int e"
  by (simp add: fval_def)


















end
